theory Spec2Isabelle
  imports Complex_Main "HOL-Library.Multiset" "HOL-Library.Monad_Syntax"
begin

section \<open>Numbers\<close>

text \<open>
  A JavaScript number is an IEEE 754 double. \<open>Fin m e\<close> is the finite value
  \<open>m * 2 ^ e\<close> in its unique form: \<open>m\<close> odd with \<open>\<bar>m\<bar> < 2 ^ 53\<close> and
  \<open>- 1074 \<le> e\<close>, or \<open>Fin 0 0\<close> for zero. The two zeros are not told apart: no
  operation modelled here distinguishes them. For instance 25.5 is \<open>Fin 51 (- 1)\<close>
  and 0.1 is \<open>Fin 3602879701896397 (- 55)\<close>.
\<close>

datatype number = Fin int int | PosInf | NegInf | NaN

fun bitlen :: "nat \<Rightarrow> nat" where
  "bitlen n = (if n = 0 then 0 else Suc (bitlen (n div 2)))"

declare bitlen.simps [simp del]

fun trailingZeros :: "nat \<Rightarrow> nat" where
  "trailingZeros n = (if n = 0 \<or> odd n then 0 else Suc (trailingZeros (n div 2)))"

declare trailingZeros.simps [simp del]

text \<open>
  The double with the value \<open>m * 2 ^ e\<close>, for a value that needs no rounding:
  infinite when the magnitude reaches \<open>2 ^ 1024\<close>, otherwise in the unique form.
\<close>

definition finish :: "int \<Rightarrow> int \<Rightarrow> number" where
  "finish m e =
     (if m = 0 then Fin 0 0
      else if 1024 < int (bitlen (nat \<bar>m\<bar>)) + e then (if 0 < m then PosInf else NegInf)
      else let k = trailingZeros (nat \<bar>m\<bar>) in Fin (m div 2 ^ k) (e + int k))"

text \<open>
  Rounding the exact value \<open>m * 2 ^ e\<close> to a double, to nearest with ties to even:
  the low \<open>s\<close> bits are dropped so that 53 bits remain and the exponent is not below
  \<open>- 1074\<close>.
\<close>

definition roundDouble :: "int \<Rightarrow> int \<Rightarrow> number" where
  "roundDouble m e =
     (let a = nat \<bar>m\<bar>;
          s = max (int (bitlen a) - 53) (- 1074 - e)
      in if s \<le> 0 then finish m e
         else let q = a div 2 ^ nat s;
                  r = a mod 2 ^ nat s;
                  half = 2 ^ (nat s - 1);
                  q' = (if half < r \<or> (r = half \<and> odd q) then q + 1 else q)
              in finish (sgn m * int q') (e + s))"

text \<open>
  \<^verbatim>\<open>a + b\<close>, \<^verbatim>\<open>-a\<close> and \<^verbatim>\<open>a - b\<close> on numbers. Two finite numbers are added
  exactly, on the smaller of their exponents, and the sum is rounded.
\<close>

fun fadd :: "number \<Rightarrow> number \<Rightarrow> number" where
  "fadd (Fin m1 e1) (Fin m2 e2) =
     roundDouble (m1 * 2 ^ nat (e1 - min e1 e2) + m2 * 2 ^ nat (e2 - min e1 e2)) (min e1 e2)"
| "fadd NaN b = NaN"
| "fadd a NaN = NaN"
| "fadd PosInf NegInf = NaN"
| "fadd NegInf PosInf = NaN"
| "fadd PosInf b = PosInf"
| "fadd a PosInf = PosInf"
| "fadd NegInf b = NegInf"
| "fadd a NegInf = NegInf"

fun fneg :: "number \<Rightarrow> number" where
  "fneg (Fin m e) = Fin (- m) e"
| "fneg PosInf = NegInf"
| "fneg NegInf = PosInf"
| "fneg NaN = NaN"

definition fsub :: "number \<Rightarrow> number \<Rightarrow> number" where
  "fsub a b = fadd a (fneg b)"

text \<open>\<^verbatim>\<open>x > 0\<close>, and the numbers that count as false (\<^verbatim>\<open>0\<close> and \<^verbatim>\<open>NaN\<close>).\<close>

fun isPositive :: "number \<Rightarrow> bool" where
  "isPositive (Fin m e) = (0 < m)"
| "isPositive PosInf = True"
| "isPositive NegInf = False"
| "isPositive NaN = False"

definition falsy :: "number \<Rightarrow> bool" where
  "falsy x = (x = Fin 0 0 \<or> x = NaN)"


section \<open>Dates\<close>

text \<open>
  A JavaScript \<^verbatim>\<open>Date\<close> holds a time value, an instant. A valid \<^verbatim>\<open>Date\<close> is
  modelled by the UTC reading of its instant: year, month (0..11), day of the month and
  milliseconds since midnight, as \<^verbatim>\<open>getUTCFullYear\<close>, \<^verbatim>\<open>getUTCMonth\<close> and
  \<^verbatim>\<open>getUTCDate\<close> return them. Two dates are the same instant when these fields are
  equal. An \<^verbatim>\<open>Invalid Date\<close> is \<open>None\<close> of \<open>Date option\<close>. The same record
  serves for a local reading of an instant.
\<close>

record Date =
  dYear :: int
  dMonth :: nat
  dDay :: nat
  dMillis :: nat

type_synonym civil = "int \<times> nat \<times> nat"

definition isLeapYear :: "int \<Rightarrow> bool" where
  "isLeapYear y = (y mod 4 = 0 \<and> (y mod 100 \<noteq> 0 \<or> y mod 400 = 0))"

definition daysInMonth :: "int \<Rightarrow> nat \<Rightarrow> nat" where
  "daysInMonth y m =
     (if m = 1 then (if isLeapYear y then 29 else 28)
      else if m = 3 \<or> m = 5 \<or> m = 8 \<or> m = 10 then 30 else 31)"

fun nextDay :: "civil \<Rightarrow> civil" where
  "nextDay (y, m, d) =
     (if d < daysInMonth y m then (y, m, d + 1)
      else if m < 11 then (y, m + 1, 1) else (y + 1, 0, 1))"

fun prevDay :: "civil \<Rightarrow> civil" where
  "prevDay (y, m, d) =
     (if 1 < d then (y, m, d - 1)
      else if 0 < m then (y, m - 1, daysInMonth y (m - 1)) else (y - 1, 11, 31))"

fun addDays :: "nat \<Rightarrow> civil \<Rightarrow> civil" where
  "addDays 0 c = c"
| "addDays (Suc n) c = addDays n (nextDay c)"

text \<open>
  ECMAScript \<^verbatim>\<open>MakeDay(year, month, date)\<close>: the month index may lie outside 0..11 and
  the day outside the month; both roll over. The day is never negative here.
\<close>

definition makeDay :: "int \<Rightarrow> int \<Rightarrow> nat \<Rightarrow> civil" where
  "makeDay y m d =
     (let c = (y + m div 12, nat (m mod 12), 1)
      in if d = 0 then prevDay c else addDays (d - 1) c)"

text \<open>\<^verbatim>\<open>Date.UTC(y, m, d)\<close>: a year from 0 to 99 means 1900 + y.\<close>

definition dateUTC :: "int \<Rightarrow> int \<Rightarrow> nat \<Rightarrow> civil" where
  "dateUTC y m d = makeDay (if 0 \<le> y \<and> y \<le> 99 then 1900 + y else y) m d"

definition civilOf :: "Date \<Rightarrow> civil" where
  "civilOf d = (dYear d, dMonth d, dDay d)"

text \<open>
  \<^verbatim>\<open>MakeDate(day, time)\<close>: the reading at \<open>ms\<close> milliseconds after midnight of a
  day, \<open>ms\<close> at most one day.
\<close>

definition atTime :: "civil \<Rightarrow> nat \<Rightarrow> Date" where
  "atTime c ms =
     (case (if ms < 86400000 then (c, ms) else (nextDay c, ms - 86400000)) of
        ((y, m, d), t) \<Rightarrow> \<lparr>dYear = y, dMonth = m, dDay = d, dMillis = t\<rparr>)"

text \<open>The reading \<open>k\<close> minutes later (earlier for a negative \<open>k\<close>), less than a day away.\<close>

definition shiftMinutes :: "int \<Rightarrow> Date \<Rightarrow> Date" where
  "shiftMinutes k d =
     (let t = int (dMillis d) + k * 60000
      in if t < 0 then atTime (prevDay (civilOf d)) (nat (t + 86400000))
         else atTime (civilOf d) (nat t))"

text \<open>Days since 1970-01-01 of a civil day (month index 0..11), and \<^verbatim>\<open>getTime()\<close>.\<close>

definition daysFromCivil :: "int \<Rightarrow> nat \<Rightarrow> nat \<Rightarrow> int" where
  "daysFromCivil y m d =
     (let y' = (if m \<le> 1 then y - 1 else y);
          mp = (int m + 10) mod 12
      in 365 * y' + y' div 4 - y' div 100 + y' div 400 + (153 * mp + 2) div 5 + int d - 1 - 719468)"

definition getTime :: "Date \<Rightarrow> int" where
  "getTime d = daysFromCivil (dYear d) (dMonth d) (dDay d) * 86400000 + int (dMillis d)"

subsection \<open>The local time zone\<close>

text \<open>
  The zone of the browser: an offset in minutes east of UTC and at most one transition,
  the time value at which another offset takes over (a daylight-saving change). Offsets
  are less than a day.
\<close>

record Zone =
  zoneOffset :: int
  zoneTransition :: "(int \<times> int) option"

definition offsetAt :: "Zone \<Rightarrow> Date \<Rightarrow> int" where
  "offsetAt z d =
     (case zoneTransition z of
        None \<Rightarrow> zoneOffset z
      | Some (changeAt, offsetAfter) \<Rightarrow>
          if getTime d < changeAt then zoneOffset z else offsetAfter)"

text \<open>\<^verbatim>\<open>LocalTime(t)\<close>: the local reading of an instant.\<close>

definition localFields :: "Zone \<Rightarrow> Date \<Rightarrow> Date" where
  "localFields z d = shiftMinutes (offsetAt z d) d"

text \<open>
  \<^verbatim>\<open>UTC(t)\<close>: the instant of a local reading. A reading that two instants have (the
  clock was set back) means the earlier one; a reading that no instant has (the clock
  was set forward over it) is taken with the offset before the transition, which moves
  it forward by the length of the gap.
\<close>

definition utcOfLocal :: "Zone \<Rightarrow> Date \<Rightarrow> Date" where
  "utcOfLocal z f =
     (case zoneTransition z of
        None \<Rightarrow> shiftMinutes (- zoneOffset z) f
      | Some (changeAt, offsetAfter) \<Rightarrow>
          let before = shiftMinutes (- zoneOffset z) f;
              later = shiftMinutes (- offsetAfter) f
          in if getTime before < changeAt then before
             else if changeAt \<le> getTime later then later
             else before)"

subsection \<open>Reading and writing date strings\<close>

definition isDigit :: "char \<Rightarrow> bool" where
  "isDigit c = (c \<in> set ''0123456789'')"

definition digitVal :: "char \<Rightarrow> nat" where
  "digitVal c = length (takeWhile (\<lambda>x. x \<noteq> c) ''0123456789'')"

definition numberOf :: "string \<Rightarrow> nat" where
  "numberOf s = foldl (\<lambda>n c. 10 * n + digitVal c) 0 s"

text \<open>
  The three digit groups of a string matching \<^verbatim>\<open>/^\d{4}-\d{2}-\d{2}$/\<close>, the test of
  \<^verbatim>\<open>toUTCDate\<close> in the dashboard, followed there by \<^verbatim>\<open>d.split('-').map(Number)\<close>.
\<close>

definition splitDateOnly :: "string \<Rightarrow> (nat \<times> nat \<times> nat) option" where
  "splitDateOnly s =
     (if length s = 10 \<and> s ! 4 = CHR ''-'' \<and> s ! 7 = CHR ''-'' \<and> list_all isDigit (take 4 s)
         \<and> list_all isDigit (take 2 (drop 5 s)) \<and> list_all isDigit (drop 8 s)
      then Some (numberOf (take 4 s), numberOf (take 2 (drop 5 s)), numberOf (drop 8 s))
      else None)"

text \<open>
  \<^verbatim>\<open>new Date(s)\<close> for a string reads the ECMAScript date-time format:
  \<^verbatim>\<open>YYYY\<close>, \<^verbatim>\<open>YYYY-MM\<close> or \<^verbatim>\<open>YYYY-MM-DD\<close>, alone or followed by \<^verbatim>\<open>T\<close>, a time
  \<^verbatim>\<open>HH:mm\<close>, \<^verbatim>\<open>HH:mm:ss\<close> or \<^verbatim>\<open>HH:mm:ss.sss\<close>, and an optional \<^verbatim>\<open>Z\<close> or
  \<^verbatim>\<open>+HH:mm\<close> / \<^verbatim>\<open>-HH:mm\<close>. The parser consumes a prefix and returns the rest.
\<close>

definition digitsN :: "nat \<Rightarrow> string \<Rightarrow> (nat \<times> string) option" where
  "digitsN n s =
     (if n \<le> length s \<and> list_all isDigit (take n s) then Some (numberOf (take n s), drop n s)
      else None)"

definition expect :: "char \<Rightarrow> string \<Rightarrow> string option" where
  "expect c s = (case s of [] \<Rightarrow> None | x # rest \<Rightarrow> if x = c then Some rest else None)"

definition parseDatePart :: "string \<Rightarrow> ((nat \<times> nat \<times> nat) \<times> string) option" where
  "parseDatePart s =
     do {
       (y, r) \<leftarrow> digitsN 4 s;
       case expect (CHR ''-'') r of
         None \<Rightarrow> Some ((y, 1, 1), r)
       | Some r1 \<Rightarrow>
           do {
             (m, r2) \<leftarrow> digitsN 2 r1;
             case expect (CHR ''-'') r2 of
               None \<Rightarrow> Some ((y, m, 1), r2)
             | Some r3 \<Rightarrow> do { (d, r4) \<leftarrow> digitsN 2 r3; Some ((y, m, d), r4) }
           }
     }"

text \<open>Seconds and milliseconds after \<^verbatim>\<open>HH:mm\<close>; of a fraction the first three digits count.\<close>

definition parseSeconds :: "string \<Rightarrow> (nat \<times> nat \<times> string) option" where
  "parseSeconds r =
     (case expect (CHR '':'') r of
        None \<Rightarrow> Some (0, 0, r)
      | Some r1 \<Rightarrow>
          do {
            (s, r2) \<leftarrow> digitsN 2 r1;
            case expect (CHR ''.'') r2 of
              None \<Rightarrow> Some (s, 0, r2)
            | Some r3 \<Rightarrow>
                if takeWhile isDigit r3 = [] then None
                else Some (s, numberOf (take 3 (takeWhile isDigit r3 @ ''00'')),
                           dropWhile isDigit r3)
          })"

text \<open>The time of day in milliseconds; \<^verbatim>\<open>24:00:00\<close> is the end of the day.\<close>

definition parseTimePart :: "string \<Rightarrow> (nat \<times> string) option" where
  "parseTimePart r =
     do {
       (h, r1) \<leftarrow> digitsN 2 r;
       r2 \<leftarrow> expect (CHR '':'') r1;
       (mi, r3) \<leftarrow> digitsN 2 r2;
       (s, ms, r4) \<leftarrow> parseSeconds r3;
       if (h \<le> 23 \<or> (h = 24 \<and> mi = 0 \<and> s = 0 \<and> ms = 0)) \<and> mi \<le> 59 \<and> s \<le> 59
       then Some (((h * 60 + mi) * 60 + s) * 1000 + ms, r4)
       else None
     }"

text \<open>
  The offset in minutes at the end of the string: \<open>Some None\<close> when there is none
  (local time), \<open>None\<close> when the rest is not an offset.
\<close>

definition parseOffset :: "string \<Rightarrow> int option option" where
  "parseOffset r =
     (case r of
        [] \<Rightarrow> Some None
      | c # r1 \<Rightarrow>
          if c = CHR ''Z'' then (if r1 = [] then Some (Some 0) else None)
          else if c = CHR ''+'' \<or> c = CHR ''-'' then
            do {
              (h, r2) \<leftarrow> digitsN 2 r1;
              r3 \<leftarrow> expect (CHR '':'') r2;
              (m, r4) \<leftarrow> digitsN 2 r3;
              if r4 = [] \<and> h \<le> 23 \<and> m \<le> 59
              then Some (Some ((if c = CHR ''-'' then - 1 else 1) * int (h * 60 + m)))
              else None
            }
          else None)"

text \<open>
  \<^verbatim>\<open>new Date(s)\<close>. A date alone is midnight UTC; a date with a time and no offset
  is local time. A month outside 01..12 or a day outside 01..31 gives
  \<^verbatim>\<open>Invalid Date\<close>, and a day beyond the end of its month rolls over (as V8 does). A
  string that is not in the format is read by an implementation-defined fallback, which
  is not modelled: it is taken as \<^verbatim>\<open>Invalid Date\<close>.
\<close>

definition newDate :: "Zone \<Rightarrow> string \<Rightarrow> Date option" where
  "newDate z s =
     do {
       ((y, m, d), r) \<leftarrow> parseDatePart s;
       if 1 \<le> m \<and> m \<le> 12 \<and> 1 \<le> d \<and> d \<le> 31
       then (if r = [] then Some (atTime (makeDay (int y) (int m - 1) d) 0)
             else do {
               r1 \<leftarrow> expect (CHR ''T'') r;
               (t, r2) \<leftarrow> parseTimePart r1;
               off \<leftarrow> parseOffset r2;
               case off of
                 None \<Rightarrow> Some (utcOfLocal z (atTime (makeDay (int y) (int m - 1) d) t))
               | Some k \<Rightarrow> Some (shiftMinutes (- k) (atTime (makeDay (int y) (int m - 1) d) t))
             })
       else None
     }"

definition digitChar :: "nat \<Rightarrow> char" where
  "digitChar n = ''0123456789'' ! n"

fun showNat :: "nat \<Rightarrow> string" where
  "showNat n = (if n < 10 then [digitChar n] else showNat (n div 10) @ [digitChar (n mod 10)])"

declare showNat.simps [simp del]

definition padStart :: "nat \<Rightarrow> string \<Rightarrow> string" where
  "padStart n s = replicate (n - length s) (CHR ''0'') @ s"

text \<open>
  date-fns \<^verbatim>\<open>format(d, 'yyyy-MM-dd')\<close>, which writes the local reading, for a year that
  is not negative.
\<close>

definition formatYMD :: "Zone \<Rightarrow> Date \<Rightarrow> string" where
  "formatYMD z d =
     (let f = localFields z d
      in padStart 4 (showNat (nat (dYear f))) @ ''-'' @ padStart 2 (showNat (dMonth f + 1))
           @ ''-'' @ padStart 2 (showNat (dDay f)))"

subsection \<open>The date-fns functions the store and the pages call\<close>

text \<open>
  The functions work through the local getters and setters of \<^verbatim>\<open>Date\<close>. A setter
  reads the local fields, replaces some, and takes the instant of the new reading
  (\<open>utcOfLocal\<close>). \<^verbatim>\<open>startOfMonth\<close> is \<^verbatim>\<open>setDate(1)\<close> followed by
  \<^verbatim>\<open>setHours(0, 0, 0, 0)\<close>. An \<^verbatim>\<open>Invalid Date\<close> stays invalid.
\<close>

definition setDate :: "Zone \<Rightarrow> nat \<Rightarrow> Date \<Rightarrow> Date" where
  "setDate z n d =
     (let f = localFields z d
      in utcOfLocal z (atTime (makeDay (dYear f) (int (dMonth f)) n) (dMillis f)))"

definition setHoursZero :: "Zone \<Rightarrow> Date \<Rightarrow> Date" where
  "setHoursZero z d = utcOfLocal z (atTime (civilOf (localFields z d)) 0)"

definition startOfMonth :: "Zone \<Rightarrow> Date option \<Rightarrow> Date option" where
  "startOfMonth z date = map_option (\<lambda>d. setHoursZero z (setDate z 1 d)) date"

text \<open>
  \<^verbatim>\<open>addMonths(date, amount)\<close>. \<open>endOfDesiredMonth\<close> is the copy after
  \<^verbatim>\<open>setMonth(month + amount + 1, 0)\<close>, the last day of the target month at the same
  local time; it is the result when the day of the month does not fit. Otherwise the
  result is the date after \<^verbatim>\<open>setFullYear(year, month, dayOfMonth)\<close>, which keeps the
  local time of day too.
\<close>

definition addMonths :: "Zone \<Rightarrow> Date option \<Rightarrow> int \<Rightarrow> Date option" where
  "addMonths z date amount =
     (case date of
        None \<Rightarrow> None
      | Some d \<Rightarrow>
          if amount = 0 then Some d
          else let f = localFields z d;
                   dayOfMonth = dDay f;
                   endOfDesiredMonth =
                     utcOfLocal z
                       (atTime (makeDay (dYear f) (int (dMonth f) + amount + 1) 0) (dMillis f));
                   fe = localFields z endOfDesiredMonth;
                   daysInTargetMonth = dDay fe
               in if daysInTargetMonth \<le> dayOfMonth then Some endOfDesiredMonth
                  else Some (utcOfLocal z
                         (atTime (makeDay (dYear fe) (int (dMonth fe)) dayOfMonth) (dMillis f))))"

definition subMonths :: "Zone \<Rightarrow> Date option \<Rightarrow> int \<Rightarrow> Date option" where
  "subMonths z date amount = addMonths z date (- amount)"

definition isSameMonth :: "Zone \<Rightarrow> Date option \<Rightarrow> Date option \<Rightarrow> bool" where
  "isSameMonth z a b =
     (case (a, b) of
        (Some x, Some y) \<Rightarrow>
          dYear (localFields z x) = dYear (localFields z y)
          \<and> dMonth (localFields z x) = dMonth (localFields z y)
      | _ \<Rightarrow> False)"

section \<open>The data model (\<^verbatim>\<open>src/lib/types.ts\<close>)\<close>

datatype LucideIcon = PiggyBank | Icon string

record Category =
  cat_id :: string
  cat_name :: string
  cat_color :: string
  cat_icon :: LucideIcon
  cat_isArchived :: bool
  cat_createdAt :: string

text \<open>
  An amount is a number. \<^verbatim>\<open>year\<close> and \<^verbatim>\<open>month\<close> are numbers too; they come from
  \<^verbatim>\<open>getFullYear()\<close> and \<^verbatim>\<open>getMonth() + 1\<close>, which give an integer or, for an
  \<^verbatim>\<open>Invalid Date\<close>, \<^verbatim>\<open>NaN\<close>: they are kept as integers, \<open>None\<close> standing for
  \<^verbatim>\<open>NaN\<close>. An optional field (\<^verbatim>\<open>notes?\<close>) is an option, \<open>None\<close> for
  \<^verbatim>\<open>undefined\<close>.
\<close>

record Transaction =
  txn_id :: string
  txn_date :: string
  txn_year :: "int option"
  txn_month :: "int option"
  txn_categoryId :: string
  txn_amount :: number
  txn_notes :: "string option"
  txn_createdAt :: string

text \<open>
  \<^verbatim>\<open>Partial<Transaction>\<close>: every field may be absent (\<open>None\<close>). A present
  \<^verbatim>\<open>notes\<close> may hold \<^verbatim>\<open>undefined\<close>, hence the nested option.
\<close>

record PartialTransaction =
  p_id :: "string option"
  p_date :: "string option"
  p_year :: "int option option"
  p_month :: "int option option"
  p_categoryId :: "string option"
  p_amount :: "number option"
  p_notes :: "string option option"
  p_createdAt :: "string option"

text \<open>\<^verbatim>\<open>Omit<Transaction, 'id' | 'createdAt' | 'year' | 'month'>\<close>\<close>

record TransactionInput =
  in_date :: string
  in_categoryId :: string
  in_amount :: number
  in_notes :: "string option"

text \<open>\<^verbatim>\<open>Omit<Category, 'id' | 'createdAt' | 'isArchived' | 'icon'> & {icon?: any}\<close>\<close>

record CategoryInput =
  in_name :: string
  in_color :: string
  in_icon :: "LucideIcon option"

section \<open>The store (\<^verbatim>\<open>src/lib/store.ts\<close>)\<close>

record AppState =
  categories :: "Category list"
  transactions :: "Transaction list"
  currentMonth :: "Date option"
  addExpenseSheetOpen :: bool
  editingTransaction :: "PartialTransaction option"

text \<open>
  What an action reads from the platform: the local zone, and the clock as
  \<^verbatim>\<open>new Date()\<close>, \<^verbatim>\<open>Date.now()\<close> and \<^verbatim>\<open>new Date().toISOString()\<close> return it
  (one reading for each action).
\<close>

record Clock =
  zone :: Zone
  now :: Date
  nowMillis :: nat
  nowISO :: string

definition initState :: "Clock \<Rightarrow> AppState" where
  "initState clk =
     \<lparr>categories = [], transactions = [],
      currentMonth = startOfMonth (zone clk) (Some (now clk)),
      addExpenseSheetOpen = False, editingTransaction = None\<rparr>"

definition setAddExpenseSheetOpen :: "bool \<Rightarrow> PartialTransaction option \<Rightarrow> AppState \<Rightarrow> AppState" where
  "setAddExpenseSheetOpen isOpen transaction state =
     state\<lparr>addExpenseSheetOpen := isOpen, editingTransaction := transaction\<rparr>"

definition addTransaction :: "Clock \<Rightarrow> TransactionInput \<Rightarrow> AppState \<Rightarrow> AppState" where
  "addTransaction clk transaction state =
     (let parsed = (if in_date transaction = [] then Some (now clk)
                    else newDate (zone clk) (in_date transaction));
          newTxn = \<lparr>txn_id = ''txn-'' @ showNat (nowMillis clk),
                    txn_date = (if in_date transaction = [] then formatYMD (zone clk) (now clk)
                                else in_date transaction),
                    txn_year = map_option (\<lambda>d. dYear (localFields (zone clk) d)) parsed,
                    txn_month =
                      map_option (\<lambda>d. int (dMonth (localFields (zone clk) d)) + 1) parsed,
                    txn_categoryId = in_categoryId transaction,
                    txn_amount = in_amount transaction,
                    txn_notes = in_notes transaction,
                    txn_createdAt = nowISO clk\<rparr>
      in state\<lparr>transactions := transactions state @ [newTxn]\<rparr>)"

text \<open>The object spread \<^verbatim>\<open>{ ...t, ...updatedTxn }\<close>: a present field replaces the old one.\<close>

definition spread :: "Transaction \<Rightarrow> PartialTransaction \<Rightarrow> Transaction" where
  "spread t u =
     \<lparr>txn_id = (case p_id u of None \<Rightarrow> txn_id t | Some v \<Rightarrow> v),
      txn_date = (case p_date u of None \<Rightarrow> txn_date t | Some v \<Rightarrow> v),
      txn_year = (case p_year u of None \<Rightarrow> txn_year t | Some v \<Rightarrow> v),
      txn_month = (case p_month u of None \<Rightarrow> txn_month t | Some v \<Rightarrow> v),
      txn_categoryId = (case p_categoryId u of None \<Rightarrow> txn_categoryId t | Some v \<Rightarrow> v),
      txn_amount = (case p_amount u of None \<Rightarrow> txn_amount t | Some v \<Rightarrow> v),
      txn_notes = (case p_notes u of None \<Rightarrow> txn_notes t | Some v \<Rightarrow> v),
      txn_createdAt = (case p_createdAt u of None \<Rightarrow> txn_createdAt t | Some v \<Rightarrow> v)\<rparr>"

definition updateTransaction :: "string \<Rightarrow> PartialTransaction \<Rightarrow> AppState \<Rightarrow> AppState" where
  "updateTransaction i updatedTxn state =
     state\<lparr>transactions :=
       map (\<lambda>t. if txn_id t = i then spread t updatedTxn else t) (transactions state)\<rparr>"

definition deleteTransaction :: "string \<Rightarrow> AppState \<Rightarrow> AppState" where
  "deleteTransaction i state =
     state\<lparr>transactions := filter (\<lambda>t. txn_id t \<noteq> i) (transactions state)\<rparr>"

definition addCategory :: "Clock \<Rightarrow> CategoryInput \<Rightarrow> AppState \<Rightarrow> Category \<times> AppState" where
  "addCategory clk category state =
     (let newCategory = \<lparr>cat_id = ''cat-'' @ showNat (nowMillis clk),
                         cat_name = in_name category,
                         cat_color = in_color category,
                         cat_icon = (case in_icon category of None \<Rightarrow> PiggyBank | Some i \<Rightarrow> i),
                         cat_isArchived = False,
                         cat_createdAt = nowISO clk\<rparr>
      in (newCategory, state\<lparr>categories := categories state @ [newCategory]\<rparr>))"

definition deleteCategory :: "string \<Rightarrow> AppState \<Rightarrow> AppState" where
  "deleteCategory i state =
     state\<lparr>categories := filter (\<lambda>c. cat_id c \<noteq> i) (categories state),
           transactions := filter (\<lambda>t. txn_categoryId t \<noteq> i) (transactions state)\<rparr>"

text \<open>\<^verbatim>\<open>String.prototype.toLowerCase\<close> on ASCII text.\<close>

definition toLowerChar :: "char \<Rightarrow> char" where
  "toLowerChar c =
     (case map_of (zip ''ABCDEFGHIJKLMNOPQRSTUVWXYZ'' ''abcdefghijklmnopqrstuvwxyz'') c of
        None \<Rightarrow> c
      | Some l \<Rightarrow> l)"

definition toLowerCase :: "string \<Rightarrow> string" where
  "toLowerCase s = map toLowerChar s"

text \<open>The argument is \<^verbatim>\<open>string | null | undefined\<close>; \<open>None\<close> is \<^verbatim>\<open>null\<close> or \<^verbatim>\<open>undefined\<close>.\<close>

definition getCategoryByName :: "string option \<Rightarrow> AppState \<Rightarrow> Category option" where
  "getCategoryByName name state =
     (case name of
        None \<Rightarrow> None
      | Some n \<Rightarrow>
          if n = [] then None
          else let lowerCaseName = toLowerCase n
               in find (\<lambda>c. toLowerCase (cat_name c) = lowerCaseName) (categories state))"

definition getCategoryById :: "string \<Rightarrow> AppState \<Rightarrow> Category option" where
  "getCategoryById i state = find (\<lambda>c. cat_id c = i) (categories state)"

text \<open>These three read the local zone through date-fns.\<close>

definition setCurrentMonth :: "Zone \<Rightarrow> Date option \<Rightarrow> AppState \<Rightarrow> AppState" where
  "setCurrentMonth z date state = state\<lparr>currentMonth := startOfMonth z date\<rparr>"

definition nextMonth :: "Zone \<Rightarrow> AppState \<Rightarrow> AppState" where
  "nextMonth z state = state\<lparr>currentMonth := addMonths z (currentMonth state) 1\<rparr>"

definition prevMonth :: "Zone \<Rightarrow> AppState \<Rightarrow> AppState" where
  "prevMonth z state = state\<lparr>currentMonth := subMonths z (currentMonth state) 1\<rparr>"

section \<open>The pages\<close>

text \<open>
  \<^verbatim>\<open>Array.prototype.sort(compareFn)\<close> is stable, and for a comparator that orders the
  elements consistently its result is that of a stable insertion sort: an element moves
  past another only when the comparator is positive. \<open>after x y\<close> says that
  \<^verbatim>\<open>compareFn(x, y) > 0\<close>; a comparator result of \<^verbatim>\<open>NaN\<close> counts as 0.
\<close>

fun insertBy :: "('a \<Rightarrow> 'a \<Rightarrow> bool) \<Rightarrow> 'a \<Rightarrow> 'a list \<Rightarrow> 'a list" where
  "insertBy after x [] = [x]"
| "insertBy after x (y # ys) = (if after x y then y # insertBy after x ys else x # y # ys)"

definition sortBy :: "('a \<Rightarrow> 'a \<Rightarrow> bool) \<Rightarrow> 'a list \<Rightarrow> 'a list" where
  "sortBy after xs = foldr (insertBy after) xs []"

subsection \<open>\<^verbatim>\<open>src/app/(app)/transactions/page.tsx\<close>\<close>

text \<open>
  \<^verbatim>\<open>(a, b) => new Date(b.date).getTime() - new Date(a.date).getTime()\<close> is positive.
  Time values are integers that doubles hold exactly, and the sign of their rounded
  difference is the sign of the difference; with an \<^verbatim>\<open>Invalid Date\<close> the difference
  is \<^verbatim>\<open>NaN\<close>.
\<close>

definition compareDateDesc :: "Zone \<Rightarrow> Transaction \<Rightarrow> Transaction \<Rightarrow> bool" where
  "compareDateDesc z a b =
     (case (newDate z (txn_date b), newDate z (txn_date a)) of
        (Some db, Some da) \<Rightarrow> 0 < getTime db - getTime da
      | _ \<Rightarrow> False)"

text \<open>\<^verbatim>\<open>filteredTransactions\<close> of the transactions page.\<close>

definition filteredTransactions :: "Zone \<Rightarrow> AppState \<Rightarrow> Transaction list" where
  "filteredTransactions z state =
     sortBy (compareDateDesc z)
       (filter (\<lambda>t. isSameMonth z (newDate z (txn_date t)) (currentMonth state))
          (transactions state))"

subsection \<open>\<^verbatim>\<open>src/app/(app)/dashboard/page.tsx\<close>\<close>

text \<open>
  \<^verbatim>\<open>toUTCDate\<close> for a string argument: a string of the shape \<^verbatim>\<open>dddd-dd-dd\<close> goes
  through \<^verbatim>\<open>Date.UTC(y, m - 1, day)\<close>, anything else through \<^verbatim>\<open>new Date(d)\<close>.
\<close>

definition toUTCDate :: "Zone \<Rightarrow> string \<Rightarrow> Date option" where
  "toUTCDate z d =
     (case splitDateOnly d of
        Some (y, m, day) \<Rightarrow> Some (atTime (dateUTC (int y) (int m - 1) day) 0)
      | None \<Rightarrow> newDate z d)"

text \<open>\<^verbatim>\<open>filteredTransactions\<close> of the dashboard.\<close>

definition dashboardTransactions :: "Zone \<Rightarrow> AppState \<Rightarrow> Transaction list" where
  "dashboardTransactions z state =
     filter (\<lambda>t. isSameMonth z (toUTCDate z (txn_date t)) (currentMonth state))
       (transactions state)"

text \<open>
  \<^verbatim>\<open>categoryTotals\<close> is an object used as a dictionary. It is modelled as an
  association list in insertion order, which is the order \<^verbatim>\<open>Object.entries\<close> lists
  keys that are not array indices. The keys are category ids, which the store forms as
  \<^verbatim>\<open>cat-...\<close>: they are neither array indices nor names of members that every object
  inherits. \<open>addTotal\<close> is \<^verbatim>\<open>categoryTotals[k] = (categoryTotals[k] || 0) + amount\<close>:
  a missing entry and an entry that counts as false both start from 0.
\<close>

fun addTotal :: "(string \<times> number) list \<Rightarrow> string \<Rightarrow> number \<Rightarrow> (string \<times> number) list" where
  "addTotal [] k a = [(k, fadd (Fin 0 0) a)]"
| "addTotal ((k', v) # rest) k a =
     (if k' = k then (k', fadd (if falsy v then Fin 0 0 else v) a) # rest
      else (k', v) # addTotal rest k a)"

definition categoryTotals :: "Transaction list \<Rightarrow> (string \<times> number) list" where
  "categoryTotals ts = foldl (\<lambda>totals t. addTotal totals (txn_categoryId t) (txn_amount t)) [] ts"

record Summary =
  total :: number
  transactionCount :: nat
  topCategory :: string

text \<open>The sort of the entries is by \<^verbatim>\<open>(a, b) => b[1] - a[1]\<close>.\<close>

definition summary :: "Zone \<Rightarrow> AppState \<Rightarrow> Summary" where
  "summary z state =
     (let filtered = dashboardTransactions z state;
          topCategoryEntry =
            (case sortBy (\<lambda>a b. isPositive (fsub (snd b) (snd a))) (categoryTotals filtered) of
               [] \<Rightarrow> None
             | e # _ \<Rightarrow> Some e);
          top = (case topCategoryEntry of
                   None \<Rightarrow> None
                 | Some e \<Rightarrow> find (\<lambda>c. cat_id c = fst e) (categories state))
      in \<lparr>total = foldl (\<lambda>sum t. fadd sum (txn_amount t)) (Fin 0 0) filtered,
          transactionCount = length filtered,
          topCategory = (case top of None \<Rightarrow> ''N/A'' | Some c \<Rightarrow> cat_name c)\<rparr>)"

section \<open>The month of a transaction\<close>

text \<open>
  Three readings of the month a transaction belongs to: the year and month (1..12)
  written in a date string \<^verbatim>\<open>YYYY-MM-DD\<close>, its first seven characters; the year and
  month \<^verbatim>\<open>addTransaction\<close> derives from a date string; and the \<^verbatim>\<open>YYYY-MM\<close> text of
  the \<^verbatim>\<open>year\<close> and \<^verbatim>\<open>month\<close> stored in a transaction. \<open>monthKey\<close> is the year and
  month of a \<^verbatim>\<open>Date\<close> in local time.
\<close>

definition writtenMonth :: "string \<Rightarrow> (int \<times> int) option" where
  "writtenMonth s = map_option (\<lambda>(y, m, d). (int y, int m)) (splitDateOnly s)"

text \<open>A date string \<^verbatim>\<open>YYYY-MM-DD\<close> that names a day of the calendar, from the year 100 on.\<close>

definition isCalendarDate :: "string \<Rightarrow> bool" where
  "isCalendarDate s =
     (case splitDateOnly s of
        None \<Rightarrow> False
      | Some (y, m, d) \<Rightarrow>
          100 \<le> y \<and> 1 \<le> m \<and> m \<le> 12 \<and> 1 \<le> d \<and> d \<le> daysInMonth (int y) (m - 1))"

definition monthKey :: "Zone \<Rightarrow> Date \<Rightarrow> int \<times> int" where
  "monthKey z d = (dYear (localFields z d), int (dMonth (localFields z d)) + 1)"

definition monthOfDate :: "Zone \<Rightarrow> string \<Rightarrow> (int \<times> int) option" where
  "monthOfDate z s = map_option (monthKey z) (newDate z s)"

definition yearMonth :: "Transaction \<Rightarrow> string option" where
  "yearMonth t =
     (case (txn_year t, txn_month t) of
        (Some y, Some m) \<Rightarrow> Some (padStart 4 (showNat (nat y)) @ ''-'' @ padStart 2 (showNat (nat m)))
      | _ \<Rightarrow> None)"

text \<open>A zone whose offsets are all at or east of UTC.\<close>

definition eastOfUTC :: "Zone \<Rightarrow> bool" where
  "eastOfUTC z =
     (0 \<le> zoneOffset z \<and> zoneOffset z < 1440
      \<and> (case zoneTransition z of
            None \<Rightarrow> True
          | Some (changeAt, offsetAfter) \<Rightarrow> 0 \<le> offsetAfter \<and> offsetAfter < 1440))"

section \<open>Reachable stores\<close>

text \<open>
  The states the store can be in: the initial one, and every state an action of the
  store produces from a reachable state, for any arguments and any clock reading.
\<close>

inductive reachable :: "AppState \<Rightarrow> bool" where
  reach_init: "reachable (initState clk)"
| reach_setAddExpenseSheetOpen:
    "reachable s \<Longrightarrow> reachable (setAddExpenseSheetOpen isOpen transaction s)"
| reach_addTransaction: "reachable s \<Longrightarrow> reachable (addTransaction clk transaction s)"
| reach_updateTransaction: "reachable s \<Longrightarrow> reachable (updateTransaction i updatedTxn s)"
| reach_deleteTransaction: "reachable s \<Longrightarrow> reachable (deleteTransaction i s)"
| reach_addCategory: "reachable s \<Longrightarrow> reachable (snd (addCategory clk category s))"
| reach_deleteCategory: "reachable s \<Longrightarrow> reachable (deleteCategory i s)"
| reach_setCurrentMonth: "reachable s \<Longrightarrow> reachable (setCurrentMonth z date s)"
| reach_nextMonth: "reachable s \<Longrightarrow> reachable (nextMonth z s)"
| reach_prevMonth: "reachable s \<Longrightarrow> reachable (prevMonth z s)"

section \<open>Export and import (\<^verbatim>\<open>src/lib/actions-python.ts\<close> and the ledger store)\<close>

text \<open>
  The outcome of a \<^verbatim>\<open>fetch\<close> as the server actions look at it: a response that is
  \<^verbatim>\<open>ok\<close> with its JSON body, a response that is not (status, status text and the
  body as \<^verbatim>\<open>JSON.stringify\<close> renders it), or a thrown \<^verbatim>\<open>Error\<close> with its message.
  An action returns \<^verbatim>\<open>{ data }\<close> or \<^verbatim>\<open>{ error }\<close>.
\<close>

datatype 'a Fetched = OkResponse 'a | NotOkResponse nat string string | Thrown string

datatype 'a ActionResult = Data 'a | Error string

definition backendError :: "nat \<Rightarrow> string \<Rightarrow> string \<Rightarrow> string" where
  "backendError status statusText errorData =
     ''Backend API error: '' @ showNat status @ '' '' @ statusText @ '' - '' @ errorData"

definition exportData :: "'a Fetched \<Rightarrow> 'a ActionResult" where
  "exportData response =
     (case response of
        OkResponse result \<Rightarrow> Data result
      | NotOkResponse status statusText errorData \<Rightarrow>
          Error (''Failed to export data: '' @ backendError status statusText errorData)
      | Thrown message \<Rightarrow> Error (''Failed to export data: '' @ message))"

definition importData :: "'a Fetched \<Rightarrow> 'a ActionResult" where
  "importData response =
     (case response of
        OkResponse result \<Rightarrow> Data result
      | NotOkResponse status statusText errorData \<Rightarrow>
          Error (''Failed to import data: '' @ backendError status statusText errorData)
      | Thrown message \<Rightarrow> Error (''Failed to import data: '' @ message))"

text \<open>
  Modelled from the spec: the records of the Expense Ledger Store, the store behind
  \<^verbatim>\<open>/api/export-data\<close> and \<^verbatim>\<open>/api/import-data\<close> (the backend's
  \<^verbatim>\<open>DatabaseService\<close>), which is not among the sources. The fields are those of the
  spec's data model; the store keeps its categories and its transactions in insertion
  order, a snapshot is the export/import payload of the spec, and the errors are the
  spec's taxonomy.
\<close>

record LedgerCategory =
  lc_id :: string
  lc_name :: string
  lc_color :: string
  lc_icon :: string
  lc_created_at :: string

record LedgerTransaction =
  lt_id :: string
  lt_amount :: real
  lt_category_id :: string
  lt_category_name :: string
  lt_notes :: "string option"
  lt_date :: string
  lt_year_month :: string
  lt_created_at :: string
  lt_updated_at :: string

record Ledger =
  ledger_categories :: "LedgerCategory list"
  ledger_transactions :: "LedgerTransaction list"

record Snapshot =
  snap_categories :: "LedgerCategory list"
  snap_transactions :: "LedgerTransaction list"

datatype LedgerError = ValidationError | NotFoundError | ConflictError

text \<open>
  Modelled from the spec: the import policy, which the spec leaves to the implementer
  (\<^verbatim>\<open>DatabaseService.import_data\<close> is not among the sources): reject on any existing-id
  conflict, or upsert.
\<close>

datatype ImportPolicy = RejectOnConflict | Upsert

text \<open>Modelled from the spec: a freshly emptied store (the store itself is not among the sources).\<close>

definition emptyLedger :: Ledger where
  "emptyLedger = \<lparr>ledger_categories = [], ledger_transactions = []\<rparr>"

text \<open>
  Modelled from the spec: the states of the ledger store (not among the sources) that
  its operations can produce have unique ids, \<^verbatim>\<open>id\<close> being the unique identifier of a
  record.
\<close>

definition ledger_wf :: "Ledger \<Rightarrow> bool" where
  "ledger_wf l =
     (distinct (map lc_id (ledger_categories l)) \<and> distinct (map lt_id (ledger_transactions l)))"

text \<open>
  Modelled from the spec: \<^verbatim>\<open>export_data()\<close> of the absent \<^verbatim>\<open>DatabaseService\<close>, a
  complete snapshot of all categories and all transactions.
\<close>

definition export_data :: "Ledger \<Rightarrow> Snapshot" where
  "export_data l =
     \<lparr>snap_categories = ledger_categories l, snap_transactions = ledger_transactions l\<rparr>"

text \<open>
  Modelled from the spec: inserting the records of a snapshot into one table of the
  absent \<^verbatim>\<open>DatabaseService\<close>, one after the other. A record whose id is already stored
  is an id conflict: it fails the import with \<^verbatim>\<open>ConflictError\<close> under the rejecting
  policy and replaces the stored record under the upsert policy.
\<close>

fun insertRows ::
  "ImportPolicy \<Rightarrow> ('a \<Rightarrow> string) \<Rightarrow> 'a list \<Rightarrow> 'a list \<Rightarrow> LedgerError + 'a list" where
  "insertRows policy key [] rows = Inr rows"
| "insertRows policy key (x # xs) rows =
     (if key x \<in> set (map key rows)
      then (case policy of
              RejectOnConflict \<Rightarrow> Inl ConflictError
            | Upsert \<Rightarrow> insertRows policy key xs (map (\<lambda>r. if key r = key x then x else r) rows))
      else insertRows policy key xs (rows @ [x]))"

text \<open>
  Modelled from the spec: \<^verbatim>\<open>import_data(snapshot)\<close> of the absent
  \<^verbatim>\<open>DatabaseService\<close>: the categories, then the transactions, are inserted; the result
  is the new store, or the error of the first conflict.
\<close>

definition import_data :: "ImportPolicy \<Rightarrow> Snapshot \<Rightarrow> Ledger \<Rightarrow> LedgerError + Ledger" where
  "import_data policy snapshot l =
     (case insertRows policy lc_id (snap_categories snapshot) (ledger_categories l) of
        Inl e \<Rightarrow> Inl e
      | Inr cs \<Rightarrow>
          (case insertRows policy lt_id (snap_transactions snapshot) (ledger_transactions l) of
             Inl e \<Rightarrow> Inl e
           | Inr ts \<Rightarrow> Inr \<lparr>ledger_categories = cs, ledger_transactions = ts\<rparr>))"

text \<open>
  Modelled from the spec: the store of the absent \<^verbatim>\<open>DatabaseService\<close> after an import
  into \<open>l\<close>: an import is atomic, so a failed one leaves the prior state.
\<close>

definition store_after :: "Ledger \<Rightarrow> LedgerError + Ledger \<Rightarrow> Ledger" where
  "store_after l result = (case result of Inl e \<Rightarrow> l | Inr l' \<Rightarrow> l')"

section \<open>A sample store\<close>

text \<open>
  Three zones: India (UTC+5:30 throughout), New York in winter (UTC-5), and
  America/Asuncion around 2023-10-01, where at 04:00 UTC the clock went from 00:00
  (UTC-4) to 01:00 (UTC-3), so that local midnight of that day does not exist.
\<close>

definition india :: Zone where
  "india = \<lparr>zoneOffset = 330, zoneTransition = None\<rparr>"

definition newYork :: Zone where
  "newYork = \<lparr>zoneOffset = - 300, zoneTransition = None\<rparr>"

definition asuncion :: Zone where
  "asuncion = \<lparr>zoneOffset = - 240, zoneTransition = Some (1696132800000, - 180)\<rparr>"

text \<open>Amounts: 25.5, 10, 40, 30.5, 5 and 12 as doubles.\<close>

definition foodCategory :: Category where
  "foodCategory =
     \<lparr>cat_id = ''cat-1705300000000'', cat_name = ''Food'', cat_color = ''#FF6B6B'',
      cat_icon = PiggyBank, cat_isArchived = False,
      cat_createdAt = ''2024-01-15T06:26:40.000Z''\<rparr>"

definition travelCategory :: Category where
  "travelCategory =
     \<lparr>cat_id = ''cat-1705300000500'', cat_name = ''Travel'', cat_color = ''#4ECDC4'',
      cat_icon = Icon ''Plane'', cat_isArchived = False,
      cat_createdAt = ''2024-01-15T06:26:40.500Z''\<rparr>"

definition lunchTxn :: Transaction where
  "lunchTxn =
     \<lparr>txn_id = ''txn-1705300060000'', txn_date = ''2024-01-15'', txn_year = Some 2024,
      txn_month = Some 1, txn_categoryId = ''cat-1705300000000'', txn_amount = Fin 51 (- 1),
      txn_notes = Some ''Lunch'', txn_createdAt = ''2024-01-15T06:27:40.000Z''\<rparr>"

definition coffeeTxn :: Transaction where
  "coffeeTxn =
     \<lparr>txn_id = ''txn-1705730000000'', txn_date = ''2024-01-20'', txn_year = Some 2024,
      txn_month = Some 1, txn_categoryId = ''cat-1705300000000'', txn_amount = Fin 5 1,
      txn_notes = None, txn_createdAt = ''2024-01-20T05:53:20.000Z''\<rparr>"

definition trainTxn :: Transaction where
  "trainTxn =
     \<lparr>txn_id = ''txn-1706940000000'', txn_date = ''2024-02-03'', txn_year = Some 2024,
      txn_month = Some 2, txn_categoryId = ''cat-1705300000500'', txn_amount = Fin 5 3,
      txn_notes = Some ''Train'', txn_createdAt = ''2024-02-03T06:00:00.000Z''\<rparr>"

text \<open>The start of January 2024 in India: 2023-12-31T18:30:00Z.\<close>

definition january :: Date where
  "january = \<lparr>dYear = 2023, dMonth = 11, dDay = 31, dMillis = 66600000\<rparr>"

definition sampleState :: AppState where
  "sampleState =
     \<lparr>categories = [foodCategory, travelCategory],
      transactions = [lunchTxn, coffeeTxn, trainTxn],
      currentMonth = Some january, addExpenseSheetOpen = False, editingTransaction = None\<rparr>"

definition sampleClock :: Clock where
  "sampleClock =
     \<lparr>zone = india,
      now = \<lparr>dYear = 2024, dMonth = 1, dDay = 10, dMillis = 23200000\<rparr>,
      nowMillis = 1707546400000,
      nowISO = ''2024-02-10T06:26:40.000Z''\<rparr>"

definition laterClock :: Clock where
  "laterClock =
     \<lparr>zone = india,
      now = \<lparr>dYear = 2024, dMonth = 1, dDay = 10, dMillis = 23260000\<rparr>,
      nowMillis = 1707546460000,
      nowISO = ''2024-02-10T06:27:40.000Z''\<rparr>"

definition foodInput :: CategoryInput where
  "foodInput = \<lparr>in_name = ''Food'', in_color = ''#FF6B6B'', in_icon = None\<rparr>"

text \<open>A partial transaction that supplies \<^verbatim>\<open>notes\<close> and nothing else.\<close>

definition notesOnly :: "string option \<Rightarrow> PartialTransaction" where
  "notesOnly n =
     \<lparr>p_id = None, p_date = None, p_year = None, p_month = None, p_categoryId = None,
      p_amount = None, p_notes = Some n, p_createdAt = None\<rparr>"




text \<open>
  What the expense sheet submits: for a new expense to \<^verbatim>\<open>addTransaction\<close>, and for an
  edited one (its four form fields) to \<^verbatim>\<open>updateTransaction\<close>.
\<close>

definition lunchInput :: TransactionInput where
  "lunchInput =
     \<lparr>in_date = ''2024-01-15'', in_categoryId = ''cat-1705300000000'', in_amount = Fin 51 (- 1),
      in_notes = Some ''Lunch''\<rparr>"

definition movedToFebruary :: PartialTransaction where
  "movedToFebruary =
     \<lparr>p_id = None, p_date = Some ''2024-02-20'', p_year = None, p_month = None,
      p_categoryId = Some ''cat-1705300000000'', p_amount = Some (Fin 51 (- 1)),
      p_notes = Some (Some ''Lunch''), p_createdAt = None\<rparr>"

definition newYearInput :: TransactionInput where
  "newYearInput =
     \<lparr>in_date = ''2024-01-01'', in_categoryId = ''cat-1705300000000'', in_amount = Fin 3 2,
      in_notes = None\<rparr>"

definition newYorkClock :: Clock where
  "newYorkClock =
     \<lparr>zone = newYork,
      now = \<lparr>dYear = 2024, dMonth = 1, dDay = 10, dMillis = 23200000\<rparr>,
      nowMillis = 1707546400000,
      nowISO = ''2024-02-10T06:26:40.000Z''\<rparr>"

text \<open>A clock in Asuncion on 2023-09-15 at 12:00 UTC.\<close>

definition asuncionClock :: Clock where
  "asuncionClock =
     \<lparr>zone = asuncion,
      now = \<lparr>dYear = 2023, dMonth = 8, dDay = 15, dMillis = 43200000\<rparr>,
      nowMillis = 1694779200000,
      nowISO = ''2023-09-15T12:00:00.000Z''\<rparr>"

text \<open>A transaction dated on the first day of February, as New York files it.\<close>

definition februaryFirstTxn :: Transaction where
  "februaryFirstTxn =
     \<lparr>txn_id = ''txn-1706800000000'', txn_date = ''2024-02-01'', txn_year = Some 2024,
      txn_month = Some 1, txn_categoryId = ''cat-1705300000000'', txn_amount = Fin 3 2,
      txn_notes = None, txn_createdAt = ''2024-02-01T15:06:40.000Z''\<rparr>"

definition newYearTxn :: Transaction where
  "newYearTxn =
     \<lparr>txn_id = ''txn-1704120000000'', txn_date = ''2024-01-01'', txn_year = Some 2023,
      txn_month = Some 12, txn_categoryId = ''cat-1705300000000'', txn_amount = Fin 3 2,
      txn_notes = None, txn_createdAt = ''2024-01-01T14:40:00.000Z''\<rparr>"

text \<open>The start of January 2024 in New York is 2024-01-01T05:00:00Z.\<close>

definition westState :: AppState where
  "westState =
     \<lparr>categories = [foodCategory],
      transactions = [newYearTxn, februaryFirstTxn],
      currentMonth = Some \<lparr>dYear = 2024, dMonth = 0, dDay = 1, dMillis = 18000000\<rparr>,
      addExpenseSheetOpen = False, editingTransaction = None\<rparr>"

text \<open>The start of March 2024 in India is 2024-02-29T18:30:00Z.\<close>

definition march :: Date where
  "march = \<lparr>dYear = 2024, dMonth = 1, dDay = 29, dMillis = 66600000\<rparr>"

definition sampleLedger :: Ledger where
  "sampleLedger =
     \<lparr>ledger_categories =
        [\<lparr>lc_id = ''food-001'', lc_name = ''Food & Dining'', lc_color = ''#FF6B6B'',
          lc_icon = ''pizza'', lc_created_at = ''2024-01-10T09:00:00''\<rparr>,
         \<lparr>lc_id = ''travel-001'', lc_name = ''Travel'', lc_color = ''#4ECDC4'',
          lc_icon = ''plane'', lc_created_at = ''2024-01-11T09:00:00''\<rparr>],
      ledger_transactions =
        [\<lparr>lt_id = ''txn-001'', lt_amount = 25.5, lt_category_id = ''food-001'',
          lt_category_name = ''Food & Dining'', lt_notes = Some ''Lunch at restaurant'',
          lt_date = ''2024-01-15'', lt_year_month = ''2024-01'',
          lt_created_at = ''2024-01-15T12:00:00'', lt_updated_at = ''2024-01-15T12:00:00''\<rparr>,
         \<lparr>lt_id = ''txn-002'', lt_amount = 40, lt_category_id = ''travel-001'',
          lt_category_name = ''Travel'', lt_notes = None,
          lt_date = ''2024-02-03'', lt_year_month = ''2024-02'',
          lt_created_at = ''2024-02-03T08:00:00'', lt_updated_at = ''2024-02-03T08:00:00''\<rparr>]\<rparr>"

section \<open>Evaluating numbers and dates\<close>

lemma bitlen_numeral: "bitlen (numeral k) = Suc (bitlen (numeral k div 2))"
  by (subst bitlen.simps) simp

lemma bitlen_small: "bitlen 0 = 0" "bitlen 1 = 1" "bitlen (Suc 0) = 1"
  by (simp_all add: bitlen.simps)

lemma trailingZeros_numeral:
  "trailingZeros (numeral k) =
     (if odd (numeral k :: nat) then 0 else Suc (trailingZeros (numeral k div 2)))"
  by (subst trailingZeros.simps) simp

lemma trailingZeros_small: "trailingZeros 0 = 0" "trailingZeros 1 = 0" "trailingZeros (Suc 0) = 0"
  by (simp_all add: trailingZeros.simps)

lemmas num_eval =
  roundDouble_def finish_def Let_def fsub_def bitlen_numeral bitlen_small
  trailingZeros_numeral trailingZeros_small

text \<open>
  0.1 + 0.2 is 0.30000000000000004 and adding 0.3 gives 0.6000000000000001;
  \<open>2 ^ 53 + 1\<close> is a tie and rounds to the even \<open>2 ^ 53\<close>; the largest double plus
  half a unit in its last place is infinite.
\<close>

lemma fadd_samples:
  "fadd (Fin 3602879701896397 (- 55)) (Fin 3602879701896397 (- 54)) = Fin 1351079888211149 (- 52)"
  "fadd (Fin 1351079888211149 (- 52)) (Fin 5404319552844595 (- 54)) = Fin 1351079888211149 (- 51)"
  "fadd (Fin 1 53) (Fin 1 0) = Fin 1 53"
  "fadd (Fin 9007199254740991 971) (Fin 1 970) = PosInf"
  by (simp_all add: num_eval)


lemma addDays_numeral: "addDays (numeral k) c = addDays (pred_numeral k) (nextDay c)"
  by (simp add: numeral_eq_Suc)

lemmas date_eval =
  newDate_def parseDatePart_def parseTimePart_def parseSeconds_def parseOffset_def
  digitsN_def expect_def toUTCDate_def dateUTC_def splitDateOnly_def isDigit_def numberOf_def
  digitVal_def makeDay_def atTime_def shiftMinutes_def civilOf_def utcOfLocal_def
  localFields_def offsetAt_def getTime_def daysFromCivil_def addDays_numeral daysInMonth_def
  isLeapYear_def

lemma newDate_samples:
  "newDate z ''2024-01-15'' = Some \<lparr>dYear = 2024, dMonth = 0, dDay = 15, dMillis = 0\<rparr>"
  "newDate z ''2024-01-20'' = Some \<lparr>dYear = 2024, dMonth = 0, dDay = 20, dMillis = 0\<rparr>"
  "newDate z ''2024-02-03'' = Some \<lparr>dYear = 2024, dMonth = 1, dDay = 3, dMillis = 0\<rparr>"
  "newDate z ''2024-02-20'' = Some \<lparr>dYear = 2024, dMonth = 1, dDay = 20, dMillis = 0\<rparr>"
  "newDate z ''2024-01-01'' = Some \<lparr>dYear = 2024, dMonth = 0, dDay = 1, dMillis = 0\<rparr>"
  "newDate z ''2024-02-01'' = Some \<lparr>dYear = 2024, dMonth = 1, dDay = 1, dMillis = 0\<rparr>"
  by (simp_all add: date_eval)

text \<open>A full timestamp, with an offset and in local time.\<close>

lemma newDate_timestamps:
  "newDate z ''2024-01-15T10:30:00Z''
     = Some \<lparr>dYear = 2024, dMonth = 0, dDay = 15, dMillis = 37800000\<rparr>"
  "newDate z ''2024-01-15T10:30:00.250+05:30''
     = Some \<lparr>dYear = 2024, dMonth = 0, dDay = 15, dMillis = 18000250\<rparr>"
  "newDate india ''2024-01-15T02:30:00''
     = Some \<lparr>dYear = 2024, dMonth = 0, dDay = 14, dMillis = 75600000\<rparr>"
  "newDate z ''15 January 2024'' = None"
  by (simp_all add: date_eval india_def)

lemma toUTCDate_samples:
  "toUTCDate z ''2024-01-15'' = Some \<lparr>dYear = 2024, dMonth = 0, dDay = 15, dMillis = 0\<rparr>"
  "toUTCDate z ''2024-01-20'' = Some \<lparr>dYear = 2024, dMonth = 0, dDay = 20, dMillis = 0\<rparr>"
  "toUTCDate z ''2024-02-03'' = Some \<lparr>dYear = 2024, dMonth = 1, dDay = 3, dMillis = 0\<rparr>"
  "toUTCDate z ''2024-01-01'' = Some \<lparr>dYear = 2024, dMonth = 0, dDay = 1, dMillis = 0\<rparr>"
  "toUTCDate z ''2024-02-01'' = Some \<lparr>dYear = 2024, dMonth = 1, dDay = 1, dMillis = 0\<rparr>"
  "toUTCDate z ''2024-01-15T10:30:00Z''
     = Some \<lparr>dYear = 2024, dMonth = 0, dDay = 15, dMillis = 37800000\<rparr>"
  by (simp_all add: date_eval)

lemma localFields_india:
  "localFields india \<lparr>dYear = 2024, dMonth = 0, dDay = 15, dMillis = 0\<rparr>
     = \<lparr>dYear = 2024, dMonth = 0, dDay = 15, dMillis = 19800000\<rparr>"
  "localFields india \<lparr>dYear = 2024, dMonth = 0, dDay = 20, dMillis = 0\<rparr>
     = \<lparr>dYear = 2024, dMonth = 0, dDay = 20, dMillis = 19800000\<rparr>"
  "localFields india \<lparr>dYear = 2024, dMonth = 1, dDay = 3, dMillis = 0\<rparr>
     = \<lparr>dYear = 2024, dMonth = 1, dDay = 3, dMillis = 19800000\<rparr>"
  "localFields india \<lparr>dYear = 2024, dMonth = 1, dDay = 20, dMillis = 0\<rparr>
     = \<lparr>dYear = 2024, dMonth = 1, dDay = 20, dMillis = 19800000\<rparr>"
  "localFields india january = \<lparr>dYear = 2024, dMonth = 0, dDay = 1, dMillis = 0\<rparr>"
  "localFields india \<lparr>dYear = 2024, dMonth = Suc 0, dDay = 3, dMillis = 0\<rparr>
     = \<lparr>dYear = 2024, dMonth = 1, dDay = 3, dMillis = 19800000\<rparr>"
  "localFields india \<lparr>dYear = 2024, dMonth = Suc 0, dDay = 20, dMillis = 0\<rparr>
     = \<lparr>dYear = 2024, dMonth = 1, dDay = 20, dMillis = 19800000\<rparr>"
  by (simp_all add: date_eval india_def january_def)

lemma localFields_newYork:
  "localFields newYork \<lparr>dYear = 2024, dMonth = 0, dDay = 1, dMillis = 0\<rparr>
     = \<lparr>dYear = 2023, dMonth = 11, dDay = 31, dMillis = 68400000\<rparr>"
  "localFields newYork \<lparr>dYear = 2024, dMonth = 1, dDay = 1, dMillis = 0\<rparr>
     = \<lparr>dYear = 2024, dMonth = 0, dDay = 31, dMillis = 68400000\<rparr>"
  "localFields newYork \<lparr>dYear = 2024, dMonth = 0, dDay = 1, dMillis = 18000000\<rparr>
     = \<lparr>dYear = 2024, dMonth = 0, dDay = 1, dMillis = 0\<rparr>"
  "localFields newYork \<lparr>dYear = 2024, dMonth = 0, dDay = Suc 0, dMillis = 0\<rparr>
     = \<lparr>dYear = 2023, dMonth = 11, dDay = 31, dMillis = 68400000\<rparr>"
  "localFields newYork \<lparr>dYear = 2024, dMonth = Suc 0, dDay = Suc 0, dMillis = 0\<rparr>
     = \<lparr>dYear = 2024, dMonth = 0, dDay = 31, dMillis = 68400000\<rparr>"
  "localFields newYork \<lparr>dYear = 2024, dMonth = 0, dDay = Suc 0, dMillis = 18000000\<rparr>
     = \<lparr>dYear = 2024, dMonth = 0, dDay = Suc 0, dMillis = 0\<rparr>"
  by (simp_all add: date_eval newYork_def)

text \<open>The day count starts at 1970-01-01; 2024-01-15T00:00:00Z is 1705276800000.\<close>

lemma daysFromCivil_samples:
  "daysFromCivil 1970 0 1 = 0"
  "daysFromCivil 2024 0 15 = 19737"
  "daysFromCivil 2024 1 29 = 19782"
  "daysFromCivil 2024 2 1 = 19783"
  "daysFromCivil 1969 11 31 = - 1"
  by (simp_all add: daysFromCivil_def)

lemma getTime_samples:
  "getTime \<lparr>dYear = 2024, dMonth = 0, dDay = 15, dMillis = 0\<rparr> = 1705276800000"
  "getTime \<lparr>dYear = 2024, dMonth = 0, dDay = 20, dMillis = 0\<rparr> = 1705708800000"
  "getTime \<lparr>dYear = 2023, dMonth = 9, dDay = 1, dMillis = 14400000\<rparr> = 1696132800000"
  by (simp_all add: getTime_def daysFromCivil_def)

lemma showNat_sample: "showNat 1707546400000 = ''1707546400000''"
  by (simp add: showNat.simps digitChar_def)

lemma yearMonth_eval:
  "padStart 4 (showNat 2024) = ''2024''"
  "padStart 4 (showNat 2023) = ''2023''"
  "padStart 2 (showNat (Suc 0)) = ''01''"
  "padStart 2 (showNat 12) = ''12''"
  by (simp_all add: padStart_def showNat.simps digitChar_def)

section \<open>Evaluating the month functions\<close>

lemma makeDay_asuncion:
  "makeDay 2023 8 1 = (2023, 8, 1)"
  "makeDay 2023 9 1 = (2023, 9, 1)"
  "makeDay 2023 10 1 = (2023, 10, 1)"
  "makeDay 2023 10 0 = (2023, 9, 31)"
  "makeDay 2023 11 0 = (2023, 10, 30)"
  "makeDay 2023 9 0 = (2023, 8, 30)"
  by (simp_all add: makeDay_def daysInMonth_def isLeapYear_def)

lemma localFields_asuncion:
  "localFields asuncion \<lparr>dYear = 2023, dMonth = 8, dDay = 15, dMillis = 43200000\<rparr>
     = \<lparr>dYear = 2023, dMonth = 8, dDay = 15, dMillis = 28800000\<rparr>"
  "localFields asuncion \<lparr>dYear = 2023, dMonth = 8, dDay = 1, dMillis = 43200000\<rparr>
     = \<lparr>dYear = 2023, dMonth = 8, dDay = 1, dMillis = 28800000\<rparr>"
  "localFields asuncion \<lparr>dYear = 2023, dMonth = 8, dDay = 1, dMillis = 14400000\<rparr>
     = \<lparr>dYear = 2023, dMonth = 8, dDay = 1, dMillis = 0\<rparr>"
  "localFields asuncion \<lparr>dYear = 2023, dMonth = 9, dDay = 31, dMillis = 10800000\<rparr>
     = \<lparr>dYear = 2023, dMonth = 9, dDay = 31, dMillis = 0\<rparr>"
  "localFields asuncion \<lparr>dYear = 2023, dMonth = 9, dDay = 1, dMillis = 14400000\<rparr>
     = \<lparr>dYear = 2023, dMonth = 9, dDay = 1, dMillis = 3600000\<rparr>"
  "localFields asuncion \<lparr>dYear = 2023, dMonth = 10, dDay = 30, dMillis = 14400000\<rparr>
     = \<lparr>dYear = 2023, dMonth = 10, dDay = 30, dMillis = 3600000\<rparr>"
  "localFields asuncion \<lparr>dYear = 2023, dMonth = 10, dDay = 1, dMillis = 14400000\<rparr>
     = \<lparr>dYear = 2023, dMonth = 10, dDay = 1, dMillis = 3600000\<rparr>"
  by (simp_all add: asuncion_def date_eval)

lemma utcOfLocal_asuncion:
  "utcOfLocal asuncion \<lparr>dYear = 2023, dMonth = 8, dDay = 1, dMillis = 28800000\<rparr>
     = \<lparr>dYear = 2023, dMonth = 8, dDay = 1, dMillis = 43200000\<rparr>"
  "utcOfLocal asuncion \<lparr>dYear = 2023, dMonth = 8, dDay = 1, dMillis = 0\<rparr>
     = \<lparr>dYear = 2023, dMonth = 8, dDay = 1, dMillis = 14400000\<rparr>"
  "utcOfLocal asuncion \<lparr>dYear = 2023, dMonth = 9, dDay = 31, dMillis = 0\<rparr>
     = \<lparr>dYear = 2023, dMonth = 9, dDay = 31, dMillis = 10800000\<rparr>"
  "utcOfLocal asuncion \<lparr>dYear = 2023, dMonth = 9, dDay = 1, dMillis = 0\<rparr>
     = \<lparr>dYear = 2023, dMonth = 9, dDay = 1, dMillis = 14400000\<rparr>"
  "utcOfLocal asuncion \<lparr>dYear = 2023, dMonth = 9, dDay = 1, dMillis = 3600000\<rparr>
     = \<lparr>dYear = 2023, dMonth = 9, dDay = 1, dMillis = 14400000\<rparr>"
  "utcOfLocal asuncion \<lparr>dYear = 2023, dMonth = 10, dDay = 30, dMillis = 3600000\<rparr>
     = \<lparr>dYear = 2023, dMonth = 10, dDay = 30, dMillis = 14400000\<rparr>"
  "utcOfLocal asuncion \<lparr>dYear = 2023, dMonth = 10, dDay = 1, dMillis = 3600000\<rparr>
     = \<lparr>dYear = 2023, dMonth = 10, dDay = 1, dMillis = 14400000\<rparr>"
  "utcOfLocal asuncion \<lparr>dYear = 2023, dMonth = 10, dDay = 1, dMillis = 0\<rparr>
     = \<lparr>dYear = 2023, dMonth = 10, dDay = 1, dMillis = 10800000\<rparr>"
  by (simp_all add: asuncion_def date_eval)

lemmas fns_eval =
  startOfMonth_def setDate_def setHoursZero_def addMonths_def subMonths_def Let_def civilOf_def
  atTime_def

lemma init_asuncion:
  "currentMonth (initState asuncionClock)
     = Some \<lparr>dYear = 2023, dMonth = 8, dDay = 1, dMillis = 14400000\<rparr>"
  by (simp add: initState_def asuncionClock_def fns_eval makeDay_asuncion localFields_asuncion
      utcOfLocal_asuncion del: One_nat_def)

lemma next_asuncion_1:
  "addMonths asuncion (Some \<lparr>dYear = 2023, dMonth = 8, dDay = 1, dMillis = 14400000\<rparr>) 1
     = Some \<lparr>dYear = 2023, dMonth = 9, dDay = 1, dMillis = 14400000\<rparr>"
  by (simp add: fns_eval makeDay_asuncion localFields_asuncion utcOfLocal_asuncion
      del: One_nat_def)

lemma next_asuncion_2:
  "addMonths asuncion (Some \<lparr>dYear = 2023, dMonth = 9, dDay = 1, dMillis = 14400000\<rparr>) 1
     = Some \<lparr>dYear = 2023, dMonth = 10, dDay = 1, dMillis = 14400000\<rparr>"
  by (simp add: fns_eval makeDay_asuncion localFields_asuncion utcOfLocal_asuncion
      del: One_nat_def)

lemma start_asuncion_oct:
  "startOfMonth asuncion (Some \<lparr>dYear = 2023, dMonth = 9, dDay = 1, dMillis = 14400000\<rparr>)
     = Some \<lparr>dYear = 2023, dMonth = 9, dDay = 1, dMillis = 14400000\<rparr>"
  by (simp add: fns_eval makeDay_asuncion localFields_asuncion utcOfLocal_asuncion
      del: One_nat_def)

lemma start_asuncion_nov:
  "startOfMonth asuncion (Some \<lparr>dYear = 2023, dMonth = 10, dDay = 1, dMillis = 14400000\<rparr>)
     = Some \<lparr>dYear = 2023, dMonth = 10, dDay = 1, dMillis = 10800000\<rparr>"
  by (simp add: fns_eval makeDay_asuncion localFields_asuncion utcOfLocal_asuncion
      del: One_nat_def)

lemma makeDay_india:
  "makeDay 2024 1 1 = (2024, 1, 1)"
  "makeDay 2024 1 0 = (2024, 0, 31)"
  "makeDay 2024 0 1 = (2024, 0, 1)"
  "makeDay 2024 2 0 = (2024, 1, 29)"
  by (simp_all add: makeDay_def daysInMonth_def isLeapYear_def)

lemma localFields_india_months:
  "localFields india \<lparr>dYear = 2024, dMonth = 1, dDay = 10, dMillis = 23200000\<rparr>
     = \<lparr>dYear = 2024, dMonth = 1, dDay = 10, dMillis = 43000000\<rparr>"
  "localFields india \<lparr>dYear = 2024, dMonth = 1, dDay = 1, dMillis = 23200000\<rparr>
     = \<lparr>dYear = 2024, dMonth = 1, dDay = 1, dMillis = 43000000\<rparr>"
  "localFields india \<lparr>dYear = 2024, dMonth = 0, dDay = 31, dMillis = 66600000\<rparr>
     = \<lparr>dYear = 2024, dMonth = 1, dDay = 1, dMillis = 0\<rparr>"
  "localFields india \<lparr>dYear = 2024, dMonth = 0, dDay = 30, dMillis = 66600000\<rparr>
     = \<lparr>dYear = 2024, dMonth = 0, dDay = 31, dMillis = 0\<rparr>"
  "localFields india \<lparr>dYear = 2023, dMonth = 11, dDay = 31, dMillis = 66600000\<rparr>
     = \<lparr>dYear = 2024, dMonth = 0, dDay = 1, dMillis = 0\<rparr>"
  by (simp_all add: india_def date_eval)

lemma utcOfLocal_india:
  "utcOfLocal india \<lparr>dYear = 2024, dMonth = 1, dDay = 1, dMillis = 43000000\<rparr>
     = \<lparr>dYear = 2024, dMonth = 1, dDay = 1, dMillis = 23200000\<rparr>"
  "utcOfLocal india \<lparr>dYear = 2024, dMonth = 1, dDay = 1, dMillis = 0\<rparr>
     = \<lparr>dYear = 2024, dMonth = 0, dDay = 31, dMillis = 66600000\<rparr>"
  "utcOfLocal india \<lparr>dYear = 2024, dMonth = 0, dDay = 31, dMillis = 0\<rparr>
     = \<lparr>dYear = 2024, dMonth = 0, dDay = 30, dMillis = 66600000\<rparr>"
  "utcOfLocal india \<lparr>dYear = 2024, dMonth = 0, dDay = 1, dMillis = 0\<rparr>
     = \<lparr>dYear = 2023, dMonth = 11, dDay = 31, dMillis = 66600000\<rparr>"
  by (simp_all add: india_def date_eval)

lemma init_india:
  "currentMonth (initState sampleClock)
     = Some \<lparr>dYear = 2024, dMonth = 0, dDay = 31, dMillis = 66600000\<rparr>"
  by (simp add: initState_def sampleClock_def fns_eval makeDay_india localFields_india_months
      utcOfLocal_india del: One_nat_def)

lemma prev_india:
  "addMonths india (Some \<lparr>dYear = 2024, dMonth = 0, dDay = 31, dMillis = 66600000\<rparr>) (- 1)
     = Some \<lparr>dYear = 2023, dMonth = 11, dDay = 31, dMillis = 66600000\<rparr>"
  by (simp add: fns_eval makeDay_india localFields_india_months utcOfLocal_india
      del: One_nat_def)

section \<open>Calendar dates in a zone east of UTC\<close>

lemma addDays_within_month:
  "d + n \<le> daysInMonth y m \<Longrightarrow> addDays n (y, m, d) = (y, m, d + n)"
  by (induction n arbitrary: d) simp_all

lemma daysInMonth_le_31: "daysInMonth y m \<le> 31"
  by (simp add: daysInMonth_def)

lemma makeDay_calendar_day:
  assumes "1 \<le> m" and "m \<le> 12" and "1 \<le> d" and "d \<le> daysInMonth (int y) (m - 1)"
  shows "makeDay (int y) (int m - 1) d = (int y, m - 1, d)"
proof -
  from assms(1,2) have md: "(int m - 1) div 12 = 0" and mm: "nat ((int m - 1) mod 12) = m - 1"
    by simp_all
  from assms(3,4) have "addDays (d - 1) (int y, m - 1, 1) = (int y, m - 1, 1 + (d - 1))"
    by (intro addDays_within_month) simp
  with assms(3) show ?thesis
    by (simp add: makeDay_def md mm)
qed

lemma date_string_chars:
  assumes "splitDateOnly s = Some (y, m, d)"
  obtains a b c e f g h i where "s = [a, b, c, e, CHR ''-'', f, g, CHR ''-'', h, i]"
    and "isDigit a" "isDigit b" "isDigit c" "isDigit e" "isDigit f" "isDigit g" "isDigit h" "isDigit i"
    and "y = numberOf [a, b, c, e]" "m = numberOf [f, g]" "d = numberOf [h, i]"
proof -
  from assms have len: "length s = 10"
    by (simp add: splitDateOnly_def split: if_splits)
  then obtain a b c e p f g q h i where s: "s = [a, b, c, e, p, f, g, q, h, i]"
    by (auto simp: eval_nat_numeral length_Suc_conv)
  with assms have "p = CHR ''-''" "q = CHR ''-''"
    "isDigit a" "isDigit b" "isDigit c" "isDigit e" "isDigit f" "isDigit g" "isDigit h" "isDigit i"
    "y = numberOf [a, b, c, e]" "m = numberOf [f, g]" "d = numberOf [h, i]"
    by (auto simp: splitDateOnly_def split: if_splits)
  with s that show thesis by blast
qed

lemma isDigit_not_dash: "isDigit c \<Longrightarrow> c \<noteq> CHR ''-''"
  by (auto simp: isDigit_def)

lemma parseDatePart_date_only:
  assumes "splitDateOnly s = Some (y, m, d)"
  shows "parseDatePart s = Some ((y, m, d), [])"
proof -
  from assms obtain a b c e f g h i where s: "s = [a, b, c, e, CHR ''-'', f, g, CHR ''-'', h, i]"
    and dg: "isDigit a" "isDigit b" "isDigit c" "isDigit e" "isDigit f" "isDigit g" "isDigit h"
      "isDigit i"
    and v: "y = numberOf [a, b, c, e]" "m = numberOf [f, g]" "d = numberOf [h, i]"
    by (rule date_string_chars)
  show ?thesis
    by (simp add: parseDatePart_def digitsN_def expect_def s dg v)
qed

lemma newDate_calendar_day:
  assumes "splitDateOnly s = Some (y, m, d)" and "1 \<le> m" and "m \<le> 12"
    and "1 \<le> d" and "d \<le> daysInMonth (int y) (m - 1)"
  shows "newDate z s = Some \<lparr>dYear = int y, dMonth = m - 1, dDay = d, dMillis = 0\<rparr>"
proof -
  from assms(5) have d31: "d \<le> 31"
    using daysInMonth_le_31 [of "int y" "m - 1"] by simp
  have "makeDay (int y) (int m - 1) d = (int y, m - 1, d)"
    using assms(2-5) by (rule makeDay_calendar_day)
  with assms(2-4) d31 show ?thesis
    by (simp add: newDate_def parseDatePart_date_only [OF assms(1)] atTime_def)
qed


lemma offsetAt_east: "eastOfUTC z \<Longrightarrow> 0 \<le> offsetAt z d \<and> offsetAt z d < 1440"
  by (auto simp: eastOfUTC_def offsetAt_def split: option.splits)

text \<open>East of UTC the local reading of midnight UTC is a time of the same day.\<close>

lemma localFields_midnight_east:
  assumes "eastOfUTC z"
  shows "dYear (localFields z \<lparr>dYear = y, dMonth = m, dDay = d, dMillis = 0\<rparr>) = y
     \<and> dMonth (localFields z \<lparr>dYear = y, dMonth = m, dDay = d, dMillis = 0\<rparr>) = m
     \<and> dDay (localFields z \<lparr>dYear = y, dMonth = m, dDay = d, dMillis = 0\<rparr>) = d"
proof -
  let ?u = "\<lparr>dYear = y, dMonth = m, dDay = d, dMillis = 0\<rparr>"
  from assms have "0 \<le> offsetAt z ?u" and "offsetAt z ?u < 1440"
    using offsetAt_east [of z ?u] by simp_all
  then have "0 \<le> offsetAt z ?u * 60000" and "nat (offsetAt z ?u * 60000) < 86400000"
    by simp_all
  then show ?thesis
    by (simp add: localFields_def shiftMinutes_def atTime_def civilOf_def Let_def)
qed

lemma digitChar_digitVal: "isDigit c \<Longrightarrow> digitChar (digitVal c) = c"
  by (auto simp: isDigit_def digitVal_def digitChar_def)

lemma digitVal_less_10: "isDigit c \<Longrightarrow> digitVal c < 10"
  by (auto simp: isDigit_def digitVal_def)

lemma showNat_digit: "v < 10 \<Longrightarrow> showNat v = [digitChar v]"
  by (simp add: showNat.simps)

lemma showNat_step: "v < 10 \<Longrightarrow> 0 < n \<Longrightarrow> showNat (10 * n + v) = showNat n @ [digitChar v]"
  by (subst showNat.simps) simp

lemma numberOf_snoc: "numberOf (ds @ [c]) = 10 * numberOf ds + digitVal c"
  by (simp add: numberOf_def)

lemma padStart_showNat_numberOf:
  "ds \<noteq> [] \<Longrightarrow> list_all isDigit ds \<Longrightarrow> padStart (length ds) (showNat (numberOf ds)) = ds"
proof (induction ds rule: rev_induct)
  case Nil
  then show ?case by simp
next
  case (snoc c ds)
  then have c: "isDigit c" and all: "list_all isDigit ds"
    by simp_all
  show ?case
  proof (cases "ds = []")
    case True
    with c show ?thesis
      by (simp add: numberOf_def showNat_digit digitVal_less_10 digitChar_digitVal padStart_def)
  next
    case False
    with snoc.IH all have ih: "padStart (length ds) (showNat (numberOf ds)) = ds"
      by simp
    show ?thesis
    proof (cases "numberOf ds = 0")
      case True
      with ih have "replicate (length ds - 1) (CHR ''0'') @ [CHR ''0''] = ds"
        by (simp add: padStart_def showNat_digit digitChar_def)
      then have "replicate (length ds) (CHR ''0'') = ds"
        using False by (metis One_nat_def Suc_pred length_greater_0_conv replicate_Suc replicate_append_same)
      with True c show ?thesis
        by (simp add: numberOf_snoc showNat_digit digitVal_less_10 digitChar_digitVal padStart_def)
    next
      case False
      with c have "showNat (numberOf (ds @ [c])) = showNat (numberOf ds) @ [c]"
        by (simp add: numberOf_snoc showNat_step digitVal_less_10 digitChar_digitVal)
      with ih show ?thesis
        by (simp add: padStart_def)
    qed
  qed
qed

lemma take_7_of_date:
  assumes "length s = 10"
  shows "take 7 s = take 4 s @ [s ! 4] @ take 2 (drop 5 s)"
proof -
  from assms obtain a b c d h1 e f h2 g h where "s = [a, b, c, d, h1, e, f, h2, g, h]"
    by (auto simp: eval_nat_numeral length_Suc_conv)
  then show ?thesis by simp
qed

section \<open>Deleting a category\<close>

text \<open>
  C9. \<^verbatim>\<open>deleteCategory(id)\<close> is a plain state update: it has no error result and
  cascades. Afterwards no category has the id and no transaction refers to it; the
  categories with another id and the transactions of another category are the same, in
  the same order, and nothing else in the store changes.
\<close>

theorem deleteCategory_cascades:
  "(\<forall>c\<in>set (categories (deleteCategory i s)). cat_id c \<noteq> i)
   \<and> (\<forall>t\<in>set (transactions (deleteCategory i s)). txn_categoryId t \<noteq> i)
   \<and> (\<forall>c. cat_id c \<noteq> i \<longrightarrow>
          count_list (categories (deleteCategory i s)) c = count_list (categories s) c)
   \<and> (\<forall>t. txn_categoryId t \<noteq> i \<longrightarrow>
          count_list (transactions (deleteCategory i s)) t = count_list (transactions s) t)
   \<and> filter (\<lambda>c. cat_id c \<noteq> i) (categories (deleteCategory i s))
       = filter (\<lambda>c. cat_id c \<noteq> i) (categories s)
   \<and> filter (\<lambda>t. txn_categoryId t \<noteq> i) (transactions (deleteCategory i s))
       = filter (\<lambda>t. txn_categoryId t \<noteq> i) (transactions s)
   \<and> currentMonth (deleteCategory i s) = currentMonth s
   \<and> addExpenseSheetOpen (deleteCategory i s) = addExpenseSheetOpen s
   \<and> editingTransaction (deleteCategory i s) = editingTransaction s"
proof -
  have keep: "\<And>P xs x. P x \<Longrightarrow> count_list (filter P xs) x = count_list xs x"
  proof -
    fix P :: "'a \<Rightarrow> bool" and xs :: "'a list" and x :: 'a
    assume "P x"
    then show "count_list (filter P xs) x = count_list xs x"
      by (induction xs) auto
  qed
  show ?thesis
    by (simp add: deleteCategory_def keep)
qed

theorem deleteCategory_cascades_witness:
  "categories (deleteCategory ''cat-1705300000000'' sampleState) = [travelCategory]
   \<and> transactions (deleteCategory ''cat-1705300000000'' sampleState) = [trainTxn]
   \<and> count_list (transactions (deleteCategory ''cat-1705300000000'' sampleState)) trainTxn = 1"
  using deleteCategory_cascades [of "''cat-1705300000000''" sampleState]
  by (simp add: deleteCategory_def sampleState_def foodCategory_def travelCategory_def
      lunchTxn_def coffeeTxn_def trainTxn_def)

text \<open>
  C1 (as the store implements it). Deleting a category that transactions still refer to
  does not fail: the category and every transaction referring to it are removed, so the
  transaction list gets strictly shorter.
\<close>

theorem deleteCategory_referenced_removes:
  "i \<in> set (map txn_categoryId (transactions s)) \<Longrightarrow>
     length (transactions (deleteCategory i s)) < length (transactions s)
     \<and> i \<notin> set (map txn_categoryId (transactions (deleteCategory i s)))
     \<and> i \<notin> set (map cat_id (categories (deleteCategory i s)))"
proof -
  assume ref: "i \<in> set (map txn_categoryId (transactions s))"
  then obtain t where "t \<in> set (transactions s)" and "\<not> txn_categoryId t \<noteq> i"
    by auto
  then have "length (filter (\<lambda>t. txn_categoryId t \<noteq> i) (transactions s)) < length (transactions s)"
    by (rule length_filter_less)
  then show ?thesis
    by (auto simp: deleteCategory_def)
qed

theorem deleteCategory_referenced_removes_witness:
  "''cat-1705300000000'' \<in> set (map txn_categoryId (transactions sampleState))
   \<and> length (transactions (deleteCategory ''cat-1705300000000'' sampleState)) = 1
   \<and> length (transactions sampleState) = 3"
  using deleteCategory_referenced_removes [of "''cat-1705300000000''" sampleState]
  by (simp add: deleteCategory_def sampleState_def foodCategory_def travelCategory_def
      lunchTxn_def coffeeTxn_def trainTxn_def)

theorem deleteCategory_referenced_counterexample:
  "''cat-1705300000000'' \<in> set (map txn_categoryId (transactions sampleState))
   \<and> categories (deleteCategory ''cat-1705300000000'' sampleState) \<noteq> categories sampleState
   \<and> transactions (deleteCategory ''cat-1705300000000'' sampleState) \<noteq> transactions sampleState"
  by (simp add: deleteCategory_def sampleState_def foodCategory_def travelCategory_def
      lunchTxn_def coffeeTxn_def trainTxn_def)

section \<open>Creating and finding categories\<close>

text \<open>
  C2 (as the store implements it). \<^verbatim>\<open>addCategory\<close> has no check and no error
  result. For every store and every request it returns a new category with the
  requested name and appends it to the stored categories, which are otherwise kept;
  when a category of that name is already stored, the names are no longer distinct.
\<close>

theorem addCategory_appends:
  "categories (snd (addCategory clk category s)) = categories s @ [fst (addCategory clk category s)]
   \<and> cat_name (fst (addCategory clk category s)) = in_name category
   \<and> transactions (snd (addCategory clk category s)) = transactions s
   \<and> (in_name category \<in> set (map cat_name (categories s)) \<longrightarrow>
        \<not> distinct (map cat_name (categories (snd (addCategory clk category s)))))"
  by (simp add: addCategory_def Let_def)

theorem addCategory_appends_witness:
  "in_name foodInput \<in> set (map cat_name (categories sampleState))
   \<and> map cat_name (categories (snd (addCategory sampleClock foodInput sampleState)))
       = [''Food'', ''Travel'', ''Food'']"
  using addCategory_appends [of sampleClock foodInput sampleState]
  by (simp add: addCategory_def Let_def sampleState_def foodCategory_def travelCategory_def
      foodInput_def)

theorem addCategory_duplicate_counterexample:
  "reachable (snd (addCategory sampleClock foodInput (initState sampleClock)))
   \<and> ''Food'' \<in> set (map cat_name
        (categories (snd (addCategory sampleClock foodInput (initState sampleClock)))))
   \<and> in_name foodInput = ''Food''
   \<and> categories (snd (addCategory laterClock foodInput
        (snd (addCategory sampleClock foodInput (initState sampleClock)))))
      \<noteq> categories (snd (addCategory sampleClock foodInput (initState sampleClock)))
   \<and> reachable (snd (addCategory laterClock foodInput
        (snd (addCategory sampleClock foodInput (initState sampleClock)))))
   \<and> \<not> distinct (map cat_name (categories (snd (addCategory laterClock foodInput
        (snd (addCategory sampleClock foodInput (initState sampleClock)))))))"
proof -
  have r1: "reachable (snd (addCategory sampleClock foodInput (initState sampleClock)))"
    by (intro reach_addCategory reach_init)
  have r2: "reachable (snd (addCategory laterClock foodInput
        (snd (addCategory sampleClock foodInput (initState sampleClock)))))"
    by (intro reach_addCategory reach_init)
  show ?thesis
    using r1 r2 by (simp add: addCategory_def Let_def initState_def foodInput_def)
qed

text \<open>
  C8 (as the store implements it). Lookup by name ignores letter case: both the query
  and the stored names are lower-cased before they are compared. A lookup returns a
  stored category only for a non-empty query whose lower-cased form equals the
  lower-cased name of that category, and every non-empty query that equals a stored name
  up to letter case finds a category.
\<close>

theorem getCategoryByName_ignores_case:
  "(getCategoryByName name s = Some c \<longrightarrow>
      c \<in> set (categories s)
      \<and> (\<exists>n. name = Some n \<and> n \<noteq> [] \<and> toLowerCase (cat_name c) = toLowerCase n))
   \<and> (n \<noteq> [] \<and> c \<in> set (categories s) \<and> toLowerCase (cat_name c) = toLowerCase n \<longrightarrow>
        (\<exists>c'. getCategoryByName (Some n) s = Some c'
              \<and> toLowerCase (cat_name c') = toLowerCase n))"
proof (rule conjI)
  show "getCategoryByName name s = Some c \<longrightarrow>
      c \<in> set (categories s)
      \<and> (\<exists>n. name = Some n \<and> n \<noteq> [] \<and> toLowerCase (cat_name c) = toLowerCase n)"
  proof (rule impI)
    assume found: "getCategoryByName name s = Some c"
    then obtain q where q: "name = Some q" "q \<noteq> []"
      and f: "find (\<lambda>c. toLowerCase (cat_name c) = toLowerCase q) (categories s) = Some c"
      by (auto simp: getCategoryByName_def Let_def split: option.splits if_splits)
    from f have "c \<in> set (categories s)" and "toLowerCase (cat_name c) = toLowerCase q"
      by (auto simp: find_Some_iff)
    with q show "c \<in> set (categories s)
        \<and> (\<exists>n. name = Some n \<and> n \<noteq> [] \<and> toLowerCase (cat_name c) = toLowerCase n)"
      by blast
  qed
next
  show "n \<noteq> [] \<and> c \<in> set (categories s) \<and> toLowerCase (cat_name c) = toLowerCase n \<longrightarrow>
        (\<exists>c'. getCategoryByName (Some n) s = Some c'
              \<and> toLowerCase (cat_name c') = toLowerCase n)"
  proof (rule impI)
    assume h: "n \<noteq> [] \<and> c \<in> set (categories s) \<and> toLowerCase (cat_name c) = toLowerCase n"
    then have "find (\<lambda>c. toLowerCase (cat_name c) = toLowerCase n) (categories s) \<noteq> None"
      by (auto simp: find_None_iff)
    then obtain c' where f: "find (\<lambda>c. toLowerCase (cat_name c) = toLowerCase n) (categories s) = Some c'"
      by blast
    then have "toLowerCase (cat_name c') = toLowerCase n"
      by (auto simp: find_Some_iff)
    with f h show "\<exists>c'. getCategoryByName (Some n) s = Some c'
                \<and> toLowerCase (cat_name c') = toLowerCase n"
      by (simp add: getCategoryByName_def Let_def)
  qed
qed

theorem getCategoryByName_ignores_case_witness:
  "getCategoryByName (Some ''fOOD'') sampleState = Some foodCategory
   \<and> foodCategory \<in> set (categories sampleState)
   \<and> toLowerCase (cat_name foodCategory) = toLowerCase ''fOOD''"
  using getCategoryByName_ignores_case
    [of "Some ''fOOD''" sampleState foodCategory "''fOOD''"]
  by (simp add: getCategoryByName_def Let_def sampleState_def foodCategory_def
      travelCategory_def toLowerCase_def toLowerChar_def)

theorem getCategoryByName_case_counterexample:
  "getCategoryByName (Some ''food'') sampleState = Some foodCategory
   \<and> foodCategory \<in> set (categories sampleState)
   \<and> ''food'' \<noteq> cat_name foodCategory"
  by (simp add: getCategoryByName_def Let_def sampleState_def foodCategory_def
      travelCategory_def toLowerCase_def toLowerChar_def)

section \<open>Updating a transaction\<close>

text \<open>
  C4 (as the store implements it). An update that supplies only \<^verbatim>\<open>notes\<close> replaces
  the notes of every transaction with the given id and nothing else: amount, category,
  date, year, month, id and \<^verbatim>\<open>createdAt\<close> stay as they were. A transaction has no
  \<^verbatim>\<open>updatedAt\<close> field and the update reads no clock, so no timestamp is refreshed.
  Every transaction with another id, and the rest of the store, is unchanged.
\<close>

theorem updateTransaction_notes_only:
  "transactions (updateTransaction i (notesOnly n) s)
     = map (\<lambda>t. if txn_id t = i then t\<lparr>txn_notes := n\<rparr> else t) (transactions s)
   \<and> (\<forall>t\<in>set (transactions s). txn_id t \<noteq> i \<longrightarrow>
         t \<in> set (transactions (updateTransaction i (notesOnly n) s)))
   \<and> (\<forall>k < length (transactions s).
         txn_amount (transactions (updateTransaction i (notesOnly n) s) ! k)
           = txn_amount (transactions s ! k)
         \<and> txn_categoryId (transactions (updateTransaction i (notesOnly n) s) ! k)
           = txn_categoryId (transactions s ! k)
         \<and> txn_date (transactions (updateTransaction i (notesOnly n) s) ! k)
           = txn_date (transactions s ! k)
         \<and> txn_createdAt (transactions (updateTransaction i (notesOnly n) s) ! k)
           = txn_createdAt (transactions s ! k))
   \<and> categories (updateTransaction i (notesOnly n) s) = categories s
   \<and> currentMonth (updateTransaction i (notesOnly n) s) = currentMonth s"
proof -
  have sp: "\<And>t. spread t (notesOnly n) = t\<lparr>txn_notes := n\<rparr>"
    by (simp add: spread_def notesOnly_def)
  show ?thesis
    by (auto simp: updateTransaction_def sp)
qed

theorem updateTransaction_notes_only_witness:
  "transactions (updateTransaction ''txn-1705300060000'' (notesOnly (Some ''Team lunch'')) sampleState)
     = [lunchTxn\<lparr>txn_notes := Some ''Team lunch''\<rparr>, coffeeTxn, trainTxn]
   \<and> coffeeTxn \<in> set (transactions sampleState)
   \<and> txn_id coffeeTxn \<noteq> ''txn-1705300060000''
   \<and> (0::nat) < length (transactions sampleState)"
  using updateTransaction_notes_only [of "''txn-1705300060000''" "Some ''Team lunch''" sampleState]
  by (simp add: sampleState_def lunchTxn_def coffeeTxn_def trainTxn_def)

theorem updateTransaction_notes_counterexample:
  "hd (transactions (updateTransaction ''txn-1705300060000'' (notesOnly (Some ''Team lunch''))
         sampleState))
     = lunchTxn\<lparr>txn_notes := Some ''Team lunch''\<rparr>
   \<and> txn_createdAt (hd (transactions (updateTransaction ''txn-1705300060000''
         (notesOnly (Some ''Team lunch'')) sampleState)))
     = txn_createdAt lunchTxn"
  by (simp add: updateTransaction_def spread_def notesOnly_def sampleState_def lunchTxn_def
      coffeeTxn_def trainTxn_def)

section \<open>The month fields of a transaction\<close>

text \<open>
  At creation, for a date \<^verbatim>\<open>YYYY-MM-DD\<close> that is a calendar day and a zone at or
  east of UTC, the stored year and month are those written in the date: the month
  bucket is the first seven characters of the date.
\<close>

lemma addTransaction_month_of_date:
  assumes split: "splitDateOnly (in_date x) = Some (y, m, d)"
    and m: "1 \<le> m" "m \<le> 12" and d: "1 \<le> d" "d \<le> daysInMonth (int y) (m - 1)"
    and east: "eastOfUTC (zone clk)"
  shows "\<exists>t. transactions (addTransaction clk x s) = transactions s @ [t]
            \<and> txn_date t = in_date x
            \<and> txn_year t = Some (int y) \<and> txn_month t = Some (int m)
            \<and> yearMonth t = Some (take 7 (in_date x))"
proof -
  let ?s = "in_date x"
  from split have len: "length ?s = 10" and dash: "?s ! 4 = CHR ''-''"
    and dy: "list_all isDigit (take 4 ?s)" and dm: "list_all isDigit (take 2 (drop 5 ?s))"
    and y: "y = numberOf (take 4 ?s)" and mv: "m = numberOf (take 2 (drop 5 ?s))"
    by (auto simp: splitDateOnly_def split: if_splits)
  from len have ne: "?s \<noteq> []" by auto
  have py: "padStart 4 (showNat y) = take 4 ?s"
    using padStart_showNat_numberOf [of "take 4 ?s"] dy len ne by (simp add: y)
  have pm: "padStart 2 (showNat m) = take 2 (drop 5 ?s)"
    using padStart_showNat_numberOf [of "take 2 (drop 5 ?s)"] dm len by (auto simp: mv)
  have nd: "newDate (zone clk) ?s
      = Some \<lparr>dYear = int y, dMonth = m - 1, dDay = d, dMillis = 0\<rparr>"
    using split m d by (rule newDate_calendar_day)
  have lf: "dYear (localFields (zone clk) \<lparr>dYear = int y, dMonth = m - 1, dDay = d, dMillis = 0\<rparr>)
        = int y
      \<and> dMonth (localFields (zone clk) \<lparr>dYear = int y, dMonth = m - 1, dDay = d, dMillis = 0\<rparr>)
        = m - 1"
    using localFields_midnight_east [OF east, of "int y" "m - 1" d] by simp
  have t7: "take 7 ?s = take 4 ?s @ [CHR ''-''] @ take 2 (drop 5 ?s)"
    using take_7_of_date [OF len] dash by simp
  from m(1) have im: "int (m - Suc 0) + 1 = int m" by simp
  show ?thesis
    using ne lf by (simp add: addTransaction_def Let_def nd im yearMonth_def py pm t7)
qed

lemma addTransaction_month_of_date_example:
  "yearMonth (last (transactions (addTransaction sampleClock lunchInput (initState sampleClock))))
     = Some ''2024-01''"
proof -
  have "splitDateOnly (in_date lunchInput) = Some (2024, 1, 15)"
    by (simp add: lunchInput_def splitDateOnly_def isDigit_def numberOf_def digitVal_def)
  moreover have "(15::nat) \<le> daysInMonth (int 2024) (1 - 1)"
    by (simp add: daysInMonth_def)
  moreover have "eastOfUTC (zone sampleClock)"
    by (simp add: sampleClock_def india_def eastOfUTC_def)
  ultimately show ?thesis
    using addTransaction_month_of_date [of lunchInput 2024 1 15 sampleClock "initState sampleClock"]
    by (auto simp: lunchInput_def)
qed

text \<open>
  C3. \<^verbatim>\<open>addTransaction\<close> derives \<^verbatim>\<open>year\<close> and \<^verbatim>\<open>month\<close> from the date, but
  \<^verbatim>\<open>updateTransaction\<close> only spreads the supplied fields: after the expense sheet
  moves a January expense to 2024-02-20 the transaction still carries year 2024 and
  month 1, so its month bucket reads \<^verbatim>\<open>2024-01\<close> while its date begins
  \<^verbatim>\<open>2024-02\<close>.
\<close>

theorem updateTransaction_keeps_old_month:
  "transactions (updateTransaction ''txn-1707546400000'' movedToFebruary
       (addTransaction sampleClock lunchInput (initState sampleClock)))
     = [\<lparr>txn_id = ''txn-1707546400000'', txn_date = ''2024-02-20'', txn_year = Some 2024,
         txn_month = Some 1, txn_categoryId = ''cat-1705300000000'', txn_amount = Fin 51 (- 1),
         txn_notes = Some ''Lunch'', txn_createdAt = ''2024-02-10T06:26:40.000Z''\<rparr>]
   \<and> map yearMonth (transactions (updateTransaction ''txn-1707546400000'' movedToFebruary
         (addTransaction sampleClock lunchInput (initState sampleClock))))
     = [Some ''2024-01'']
   \<and> map (\<lambda>t. take 7 (txn_date t)) (transactions (updateTransaction ''txn-1707546400000''
         movedToFebruary (addTransaction sampleClock lunchInput (initState sampleClock))))
     = [''2024-02'']"
  by (simp add: updateTransaction_def addTransaction_def Let_def initState_def spread_def
      sampleClock_def lunchInput_def movedToFebruary_def showNat_sample newDate_samples
      localFields_india yearMonth_def yearMonth_eval)

text \<open>
  West of UTC the derivation at creation is already a day off for the first day of a
  month: \<^verbatim>\<open>new Date('2024-01-01')\<close> is midnight UTC, which is still December
  locally.
\<close>

lemma addTransaction_west_of_UTC:
  "map yearMonth (transactions (addTransaction newYorkClock newYearInput (initState newYorkClock)))
     = [Some ''2023-12'']
   \<and> map (\<lambda>t. take 7 (txn_date t))
        (transactions (addTransaction newYorkClock newYearInput (initState newYorkClock)))
     = [''2024-01'']"
  by (simp add: addTransaction_def Let_def initState_def newYorkClock_def newYearInput_def
      showNat_sample newDate_samples localFields_newYork yearMonth_def yearMonth_eval)

section \<open>The current month\<close>

text \<open>
  C10. The store sets \<^verbatim>\<open>currentMonth\<close> to a \<^verbatim>\<open>startOfMonth\<close> initially and in
  \<^verbatim>\<open>setCurrentMonth\<close>, but \<^verbatim>\<open>nextMonth\<close> and \<^verbatim>\<open>prevMonth\<close> only add months, which
  keeps the local time of day. In America/Asuncion local midnight of 2023-10-01 does
  not exist: starting in September 2023, \<^verbatim>\<open>nextMonth\<close> lands on 01:00 of 1 October,
  and once more on 01:00 of 1 November, which is not the start of November (03:00 UTC)
  but an hour later.
\<close>

theorem nextMonth_keeps_odd_hour:
  "reachable (nextMonth asuncion (nextMonth asuncion (initState asuncionClock)))
   \<and> currentMonth (initState asuncionClock)
       = Some \<lparr>dYear = 2023, dMonth = 8, dDay = 1, dMillis = 14400000\<rparr>
   \<and> currentMonth (nextMonth asuncion (initState asuncionClock))
       = Some \<lparr>dYear = 2023, dMonth = 9, dDay = 1, dMillis = 14400000\<rparr>
   \<and> currentMonth (nextMonth asuncion (nextMonth asuncion (initState asuncionClock)))
       = Some \<lparr>dYear = 2023, dMonth = 10, dDay = 1, dMillis = 14400000\<rparr>
   \<and> startOfMonth asuncion
         (currentMonth (nextMonth asuncion (nextMonth asuncion (initState asuncionClock))))
       = Some \<lparr>dYear = 2023, dMonth = 10, dDay = 1, dMillis = 10800000\<rparr>
   \<and> currentMonth (nextMonth asuncion (nextMonth asuncion (initState asuncionClock)))
       \<noteq> startOfMonth asuncion
           (currentMonth (nextMonth asuncion (nextMonth asuncion (initState asuncionClock))))"
proof -
  have r: "reachable (nextMonth asuncion (nextMonth asuncion (initState asuncionClock)))"
    by (intro reach_nextMonth reach_init)
  have c1: "currentMonth (nextMonth asuncion (initState asuncionClock))
       = Some \<lparr>dYear = 2023, dMonth = 9, dDay = 1, dMillis = 14400000\<rparr>"
    by (simp add: nextMonth_def init_asuncion next_asuncion_1 del: One_nat_def)
  have c2: "currentMonth (nextMonth asuncion (nextMonth asuncion (initState asuncionClock)))
       = Some \<lparr>dYear = 2023, dMonth = 10, dDay = 1, dMillis = 14400000\<rparr>"
    by (simp add: nextMonth_def init_asuncion next_asuncion_1 next_asuncion_2 del: One_nat_def)
  show ?thesis
    using r by (simp add: c1 c2 init_asuncion start_asuncion_nov del: One_nat_def)
qed

text \<open>
  In India, where the offset never changes, the same steps stay on the start of a
  month.
\<close>

lemma prevMonth_india:
  "currentMonth (prevMonth india (initState sampleClock)) = Some january
   \<and> startOfMonth india (currentMonth (prevMonth india (initState sampleClock))) = Some january"
  by (simp add: prevMonth_def subMonths_def init_india prev_india january_def fns_eval
      makeDay_india localFields_india_months utcOfLocal_india del: One_nat_def)

section \<open>The transactions of a month\<close>

lemma mset_insertBy: "mset (insertBy after x ys) = add_mset x (mset ys)"
  by (induction ys) simp_all

lemma mset_sortBy: "mset (sortBy after xs) = mset xs"
  by (induction xs) (simp_all add: sortBy_def mset_insertBy)

lemma set_sortBy: "set (sortBy after xs) = set xs"
  using mset_sortBy [of after xs] by (metis set_mset_mset)

lemma length_sortBy: "length (sortBy after xs) = length xs"
  using mset_sortBy [of after xs] by (metis size_mset)

lemma insertBy_insort_key:
  fixes k :: "'a \<Rightarrow> int"
  assumes "\<forall>y\<in>set ys. after x y \<longleftrightarrow> k x < k y"
  shows "insertBy after x ys = insort_key (\<lambda>t. - k t) x ys"
  using assms by (induction ys) auto

lemma sortBy_sort_key:
  fixes k :: "'a \<Rightarrow> int"
  assumes "\<forall>a\<in>set xs. \<forall>b\<in>set xs. after a b \<longleftrightarrow> k a < k b"
  shows "sortBy after xs = sort_key (\<lambda>t. - k t) xs"
  using assms
proof (induction xs)
  case Nil
  show ?case by (simp add: sortBy_def)
next
  case (Cons x xs)
  then have ih: "sortBy after xs = sort_key (\<lambda>t. - k t) xs"
    by simp
  have "sortBy after (x # xs) = insertBy after x (sortBy after xs)"
    by (simp add: sortBy_def)
  also have "\<dots> = insertBy after x (sort_key (\<lambda>t. - k t) xs)"
    by (simp only: ih)
  also have "\<dots> = insort_key (\<lambda>t. - k t) x (sort_key (\<lambda>t. - k t) xs)"
    using Cons.prems by (intro insertBy_insort_key) simp
  finally show ?case by simp
qed

lemma sortBy_descending:
  fixes k :: "'a \<Rightarrow> int"
  assumes "\<forall>a\<in>set xs. \<forall>b\<in>set xs. after a b \<longleftrightarrow> k a < k b"
  shows "sorted_wrt (\<lambda>a b. k b \<le> k a) (sortBy after xs)"
proof -
  have "sorted (map (\<lambda>t. - k t) (sort_key (\<lambda>t. - k t) xs))"
    by (rule sorted_sort_key)
  then have "sorted_wrt (\<lambda>a b. k b \<le> k a) (sort_key (\<lambda>t. - k t) xs)"
    by (simp add: sorted_map)
  then show ?thesis
    using sortBy_sort_key [OF assms] by simp
qed

lemma isSameMonth_monthOfDate:
  "isSameMonth z (newDate z s) (Some cm) \<longleftrightarrow> monthOfDate z s = Some (monthKey z cm)"
  by (cases "newDate z s") (auto simp: isSameMonth_def monthOfDate_def monthKey_def)

text \<open>
  The list of the transactions page follows the dates: it holds the stored
  transactions whose date, read by \<^verbatim>\<open>new Date\<close>, lies in the current month in local
  time, each as often as it is stored, the most recent first. The stored \<^verbatim>\<open>year\<close> and
  \<^verbatim>\<open>month\<close> of a transaction play no part.
\<close>

lemma filteredTransactions_by_date:
  assumes "currentMonth s = Some cm"
  shows "mset (filteredTransactions z s)
     = filter_mset (\<lambda>t. monthOfDate z (txn_date t) = Some (monthKey z cm))
         (mset (transactions s))
   \<and> sorted_wrt
        (\<lambda>a b. \<exists>da db. newDate z (txn_date a) = Some da \<and> newDate z (txn_date b) = Some db
                  \<and> getTime db \<le> getTime da)
        (filteredTransactions z s)"
proof -
  define inMonth where
    "inMonth = (\<lambda>t::Transaction. isSameMonth z (newDate z (txn_date t)) (currentMonth s))"
  define xs where "xs = filter inMonth (transactions s)"
  define k where
    "k = (\<lambda>t::Transaction. case newDate z (txn_date t) of None \<Rightarrow> 0 | Some d \<Rightarrow> getTime d)"
  have res: "filteredTransactions z s = sortBy (compareDateDesc z) xs"
    by (simp add: filteredTransactions_def xs_def inMonth_def)
  have inMonth_iff:
    "inMonth t \<longleftrightarrow> monthOfDate z (txn_date t) = Some (monthKey z cm)" for t
    by (simp add: inMonth_def assms isSameMonth_monthOfDate)
  have valid: "\<exists>d. newDate z (txn_date t) = Some d" if "t \<in> set xs" for t
    using that by (auto simp: xs_def inMonth_def isSameMonth_def split: option.splits)
  have cmp: "\<forall>a\<in>set xs. \<forall>b\<in>set xs. compareDateDesc z a b \<longleftrightarrow> k a < k b"
  proof (intro ballI)
    fix a b
    assume "a \<in> set xs" and "b \<in> set xs"
    then obtain da db where "newDate z (txn_date a) = Some da" "newDate z (txn_date b) = Some db"
      using valid by blast
    then show "compareDateDesc z a b \<longleftrightarrow> k a < k b"
      by (simp add: compareDateDesc_def k_def)
  qed
  have m: "mset (filteredTransactions z s)
      = filter_mset (\<lambda>t. monthOfDate z (txn_date t) = Some (monthKey z cm))
          (mset (transactions s))"
    by (simp add: res mset_sortBy xs_def inMonth_iff [abs_def])
  have "sorted_wrt (\<lambda>a b. k b \<le> k a) (sortBy (compareDateDesc z) xs)"
    using cmp by (rule sortBy_descending)
  moreover have "\<exists>da db. newDate z (txn_date a) = Some da \<and> newDate z (txn_date b) = Some db
                  \<and> getTime db \<le> getTime da"
    if "a \<in> set (sortBy (compareDateDesc z) xs)" "b \<in> set (sortBy (compareDateDesc z) xs)"
      "k b \<le> k a" for a b
  proof -
    from that have "a \<in> set xs" and "b \<in> set xs"
      by (simp_all add: set_sortBy)
    then obtain da db where
      "newDate z (txn_date a) = Some da" "newDate z (txn_date b) = Some db"
      using valid by blast
    with that(3) show ?thesis by (simp add: k_def)
  qed
  ultimately have srt: "sorted_wrt
        (\<lambda>a b. \<exists>da db. newDate z (txn_date a) = Some da \<and> newDate z (txn_date b) = Some db
                  \<and> getTime db \<le> getTime da)
        (sortBy (compareDateDesc z) xs)"
    by (rule sorted_wrt_mono_rel [rotated])
  from m srt show ?thesis
    by (simp only: res)
qed

text \<open>
  For dates that are calendar days, in a zone at or east of UTC, that is the month
  written in the date.
\<close>

lemma monthOfDate_written:
  assumes "eastOfUTC z" and "isCalendarDate s"
  shows "monthOfDate z s = writtenMonth s"
proof -
  from assms(2) obtain y m d where sp: "splitDateOnly s = Some (y, m, d)"
    and r: "1 \<le> m" "m \<le> 12" "1 \<le> d" "d \<le> daysInMonth (int y) (m - 1)"
    by (auto simp: isCalendarDate_def split: option.splits)
  have nd: "newDate z s = Some \<lparr>dYear = int y, dMonth = m - 1, dDay = d, dMillis = 0\<rparr>"
    using sp r by (rule newDate_calendar_day)
  from r(1) have "int (m - 1) + 1 = int m" by simp
  then show ?thesis
    using localFields_midnight_east [OF assms(1), of "int y" "m - 1" d]
    by (simp add: monthOfDate_def monthKey_def writtenMonth_def nd sp)
qed

text \<open>
  C5. The list is made from the dates, not from the stored month bucket. In the
  store in which the expense sheet has moved a January expense to 2024-02-20 (so that
  the transaction still carries year 2024 and month 1), the list for February holds
  that transaction, and the list for January does not.
\<close>

theorem filteredTransactions_ignores_stored_month:
  "map (\<lambda>t. (txn_date t, txn_year t, txn_month t))
       (filteredTransactions india
          (updateTransaction ''txn-1707546400000'' movedToFebruary
             (addTransaction sampleClock lunchInput (initState sampleClock))))
     = [(''2024-02-20'', Some 2024, Some 1)]
   \<and> map_option (monthKey india)
         (currentMonth (updateTransaction ''txn-1707546400000'' movedToFebruary
            (addTransaction sampleClock lunchInput (initState sampleClock))))
     = Some (2024, 2)
   \<and> map_option (monthKey india)
         (currentMonth (prevMonth india (updateTransaction ''txn-1707546400000'' movedToFebruary
            (addTransaction sampleClock lunchInput (initState sampleClock)))))
     = Some (2024, 1)
   \<and> filteredTransactions india
         (prevMonth india (updateTransaction ''txn-1707546400000'' movedToFebruary
            (addTransaction sampleClock lunchInput (initState sampleClock))))
     = []
   \<and> map (\<lambda>t. (txn_date t, txn_year t, txn_month t))
         (transactions (prevMonth india (updateTransaction ''txn-1707546400000'' movedToFebruary
            (addTransaction sampleClock lunchInput (initState sampleClock)))))
     = [(''2024-02-20'', Some 2024, Some 1)]"
proof -
  define s where
    "s = updateTransaction ''txn-1707546400000'' movedToFebruary
           (addTransaction sampleClock lunchInput (initState sampleClock))"
  have ts: "transactions s
     = [\<lparr>txn_id = ''txn-1707546400000'', txn_date = ''2024-02-20'', txn_year = Some 2024,
         txn_month = Some 1, txn_categoryId = ''cat-1705300000000'', txn_amount = Fin 51 (- 1),
         txn_notes = Some ''Lunch'', txn_createdAt = ''2024-02-10T06:26:40.000Z''\<rparr>]"
    by (simp add: s_def updateTransaction_def addTransaction_def Let_def initState_def spread_def
        sampleClock_def lunchInput_def movedToFebruary_def showNat_sample newDate_samples
        localFields_india)
  have cm: "currentMonth s = Some \<lparr>dYear = 2024, dMonth = 0, dDay = 31, dMillis = 66600000\<rparr>"
    using init_india by (simp add: s_def updateTransaction_def addTransaction_def Let_def)
  have pm: "currentMonth (prevMonth india s)
      = Some \<lparr>dYear = 2023, dMonth = 11, dDay = 31, dMillis = 66600000\<rparr>"
    by (simp add: prevMonth_def subMonths_def cm prev_india)
  have pts: "transactions (prevMonth india s) = transactions s"
    by (simp add: prevMonth_def)
  have l1: "filteredTransactions india s = transactions s"
    by (simp add: filteredTransactions_def ts cm isSameMonth_def newDate_samples
        localFields_india localFields_india_months sortBy_def)
  have l2: "filteredTransactions india (prevMonth india s) = []"
    by (simp add: filteredTransactions_def pts ts pm isSameMonth_def newDate_samples
        localFields_india localFields_india_months sortBy_def)
  have k1: "map_option (monthKey india) (currentMonth s) = Some (2024, 2)"
    by (simp add: cm monthKey_def localFields_india_months)
  have k2: "map_option (monthKey india) (currentMonth (prevMonth india s)) = Some (2024, 1)"
    by (simp add: pm monthKey_def localFields_india_months)
  show ?thesis
    unfolding s_def [symmetric] by (simp add: l1 l2 k1 k2 pts ts)
qed

section \<open>The monthly summary\<close>















text \<open>The summaries of the sample stores.\<close>

lemma localFields_march:
  "localFields india march = \<lparr>dYear = 2024, dMonth = 2, dDay = 1, dMillis = 0\<rparr>"
  by (simp add: india_def march_def date_eval)



lemma dash_march:
  "dashboardTransactions india (sampleState\<lparr>currentMonth := Some march\<rparr>) = []"
  by (simp add: dashboardTransactions_def isSameMonth_def sampleState_def
      lunchTxn_def coffeeTxn_def trainTxn_def toUTCDate_samples localFields_india
      localFields_march)










text \<open>
  West of UTC the dashboard's test is a day off, although \<^verbatim>\<open>toUTCDate\<close> is there to
  avoid that: in New York the summary of January 2024 counts the transaction dated
  2024-02-01 and leaves out the one dated 2024-01-01.
\<close>

lemma dashboard_west_of_UTC:
  "dashboardTransactions newYork westState = [februaryFirstTxn]
   \<and> map txn_date (transactions westState) = [''2024-01-01'', ''2024-02-01'']
   \<and> map_option (monthKey newYork) (currentMonth westState) = Some (2024, 1)
   \<and> transactionCount (summary newYork westState) = 1"
  by (simp add: dashboardTransactions_def summary_def Let_def isSameMonth_def westState_def
      newYearTxn_def februaryFirstTxn_def toUTCDate_samples localFields_newYork monthKey_def
      del: fadd.simps)

section \<open>Export followed by import\<close>

lemma insertRows_fresh:
  assumes "distinct (map key xs)" and "set (map key xs) \<inter> set (map key rows) = {}"
  shows "insertRows policy key xs rows = Inr (rows @ xs)"
  using assms
proof (induction xs arbitrary: rows)
  case Nil
  show ?case by simp
next
  case (Cons x xs)
  from Cons.prems have fresh: "key x \<notin> set (map key rows)"
    by auto
  from Cons.prems have "distinct (map key xs)"
    and "set (map key xs) \<inter> set (map key (rows @ [x])) = {}"
    by auto
  then have "insertRows policy key xs (rows @ [x]) = Inr ((rows @ [x]) @ xs)"
    by (rule Cons.IH)
  with fresh show ?case by simp
qed

lemma upsert_same_row:
  assumes "distinct (map key rows)" and "x \<in> set rows"
  shows "map (\<lambda>r. if key r = key x then x else r) rows = rows"
proof -
  from assms(1) have inj: "inj_on key (set rows)"
    by (simp add: distinct_map)
  have "(if key r = key x then x else r) = r" if "r \<in> set rows" for r
    using that assms(2) inj by (auto dest: inj_onD)
  then show ?thesis
    by (simp add: map_idI)
qed

lemma insertRows_upsert_again:
  assumes "distinct (map key rows)" and "set xs \<subseteq> set rows"
  shows "insertRows Upsert key xs rows = Inr rows"
  using assms(2)
proof (induction xs)
  case Nil
  show ?case by simp
next
  case (Cons x xs)
  then have x: "x \<in> set rows" and rest: "set xs \<subseteq> set rows"
    by auto
  from x have "key x \<in> set (map key rows)"
    by auto
  with Cons.IH [OF rest] upsert_same_row [OF assms(1) x] show ?case
    by simp
qed

lemma insertRows_reject_again:
  "insertRows RejectOnConflict key rows rows = (if rows = [] then Inr [] else Inl ConflictError)"
  by (cases rows) simp_all

lemma import_into_empty:
  assumes "ledger_wf l"
  shows "import_data policy (export_data l) emptyLedger = Inr l"
proof -
  have "insertRows policy lc_id (ledger_categories l) [] = Inr ([] @ ledger_categories l)"
    using assms by (intro insertRows_fresh) (simp_all add: ledger_wf_def)
  moreover
  have "insertRows policy lt_id (ledger_transactions l) [] = Inr ([] @ ledger_transactions l)"
    using assms by (intro insertRows_fresh) (simp_all add: ledger_wf_def)
  ultimately show ?thesis
    by (simp add: import_data_def export_data_def emptyLedger_def)
qed

lemma import_again:
  assumes "ledger_wf l"
  shows "store_after l (import_data policy (export_data l) l) = l"
proof (cases policy)
  case Upsert
  have "insertRows Upsert lc_id (ledger_categories l) (ledger_categories l)
          = Inr (ledger_categories l)"
    using assms by (intro insertRows_upsert_again) (simp_all add: ledger_wf_def)
  moreover
  have "insertRows Upsert lt_id (ledger_transactions l) (ledger_transactions l)
          = Inr (ledger_transactions l)"
    using assms by (intro insertRows_upsert_again) (simp_all add: ledger_wf_def)
  ultimately show ?thesis
    using Upsert by (simp add: import_data_def export_data_def store_after_def)
next
  case RejectOnConflict
  then show ?thesis
    by (simp add: import_data_def export_data_def store_after_def insertRows_reject_again)
qed

text \<open>
  C7. For every ledger store whose ids are unique and either import policy: the export
  action hands the snapshot of the store through unchanged; importing that snapshot
  into a freshly emptied store gives back the same categories and transactions, in the
  same order; and importing it once more, into the store it came from or into the
  restored one, leaves that store as it is.
\<close>

theorem export_import_round_trip:
  assumes "ledger_wf l"
  shows "exportData (OkResponse (export_data l)) = Data (export_data l)
   \<and> import_data policy (export_data l) emptyLedger = Inr l
   \<and> store_after emptyLedger (import_data policy (export_data l) emptyLedger) = l
   \<and> store_after l (import_data policy (export_data l) l) = l
   \<and> export_data (store_after l (import_data policy (export_data l) l)) = export_data l"
  using assms import_into_empty [of l policy] import_again [of l policy]
  by (simp add: exportData_def store_after_def)

theorem export_import_round_trip_witness:
  "ledger_wf sampleLedger
   \<and> import_data RejectOnConflict (export_data sampleLedger) emptyLedger = Inr sampleLedger
   \<and> import_data RejectOnConflict (export_data sampleLedger) sampleLedger = Inl ConflictError
   \<and> store_after sampleLedger (import_data RejectOnConflict (export_data sampleLedger) sampleLedger)
       = sampleLedger"
proof -
  have wf: "ledger_wf sampleLedger"
    by (simp add: ledger_wf_def sampleLedger_def)
  have again: "import_data RejectOnConflict (export_data sampleLedger) sampleLedger = Inl ConflictError"
    by (simp add: import_data_def export_data_def sampleLedger_def)
  show ?thesis
    using wf again export_import_round_trip [OF wf, of RejectOnConflict] by simp
qed

end
